theory Spec2Isabelle
  imports Main
begin

section \<open>JavaScript values\<close>

text \<open>
  The program is \<^verbatim>\<open>src/app/app.js\<close>: an Express application with two routes,
  \<^verbatim>\<open>GET /\<close> and \<^verbatim>\<open>GET /oauth2/callback\<close>, and the helper \<^verbatim>\<open>handleError\<close>.
  Its handlers are glue over libraries (JSON, the WHATWG URL class, \<^verbatim>\<open>url.format\<close>,
  jsforce, \<^verbatim>\<open>fs.promises\<close>, \<^verbatim>\<open>child_process.exec\<close>, Express). The handlers are
  embedded statement by statement; the libraries are parameters of the embedding (the
  records \<open>lib\<close> and \<open>world\<close> below), so every theorem holds whatever the libraries
  compute.

  An exception is a value: \<open>JsError name message\<close>, as a JavaScript error object carries
  its \<^verbatim>\<open>name\<close> and its \<^verbatim>\<open>message\<close>.
\<close>

datatype js_error = JsError (err_name: string) (err_message: string)

text \<open>
  What \<^verbatim>\<open>JSON.parse\<close> returns. A number is carried as the text \<^verbatim>\<open>String(n)\<close>
  gives for it (no claim computes with numbers). \<^verbatim>\<open>undefined\<close> is not a JSON value: a
  JavaScript value that may be \<^verbatim>\<open>undefined\<close> is a \<open>json option\<close>, and a string that
  may be \<^verbatim>\<open>undefined\<close> (an environment variable) a \<open>string option\<close>, with \<open>None\<close>
  for \<^verbatim>\<open>undefined\<close>.

  The values Express's query parser gives a query parameter are of the same shapes: a
  parameter given once is a \<open>JString\<close>, a repeated one a \<open>JArray\<close>, one written with
  brackets a \<open>JObject\<close>.
\<close>

datatype json =
    JNull
  | JBool bool
  | JNumber string
  | JString string
  | JArray "json list"
  | JObject "(string \<times> json) list"

fun join :: "string \<Rightarrow> string list \<Rightarrow> string" where
  "join sep [] = []"
| "join sep [x] = x"
| "join sep (x # y # ys) = x @ sep @ join sep (y # ys)"

text \<open>The first error of a list of results, or all the values.\<close>

fun collect :: "('e + 'a) list \<Rightarrow> 'e + 'a list" where
  "collect [] = Inr []"
| "collect (Inl e # rs) = Inl e"
| "collect (Inr x # rs) = (case collect rs of Inl e \<Rightarrow> Inl e | Inr xs \<Rightarrow> Inr (x # xs))"

text \<open>
  \<^verbatim>\<open>String(v)\<close>, the conversion every library call applies to an argument it wants as a
  string. An array joins the strings of its elements with commas (\<^verbatim>\<open>null\<close> elements
  give the empty string). An object gives \<^verbatim>\<open>[object Object]\<close>, unless it has a member
  of its own named \<^verbatim>\<open>toString\<close>: that member is no function, and neither is any
  \<^verbatim>\<open>valueOf\<close> member, so the conversion throws a TypeError.
\<close>

fun js_string :: "json \<Rightarrow> js_error + string" where
  "js_string JNull = Inr ''null''"
| "js_string (JBool b) = Inr (if b then ''true'' else ''false'')"
| "js_string (JNumber n) = Inr n"
| "js_string (JString s) = Inr s"
| "js_string (JArray xs) =
     (case collect (map (\<lambda>x. if x = JNull then Inr [] else js_string x) xs) of
        Inl e \<Rightarrow> Inl e
      | Inr ss \<Rightarrow> Inr (join '','' ss))"
| "js_string (JObject kvs) =
     (if map_of kvs ''toString'' = None then Inr ''[object Object]''
      else Inl (JsError ''TypeError'' ''Cannot convert object to primitive value''))"

definition toString :: "json option \<Rightarrow> js_error + string" where
  "toString v = (case v of None \<Rightarrow> Inr ''undefined'' | Some j \<Rightarrow> js_string j)"

text \<open>\<^verbatim>\<open>'' + s\<close> for a string that may be \<^verbatim>\<open>undefined\<close>.\<close>

definition str :: "string option \<Rightarrow> string" where
  "str s = (case s of None \<Rightarrow> ''undefined'' | Some t \<Rightarrow> t)"

text \<open>
  The property read \<^verbatim>\<open>v.k\<close>, for the property names the program reads
  (\<^verbatim>\<open>redirectURL\<close>, \<^verbatim>\<open>result\<close>, \<^verbatim>\<open>url\<close>: none of them is a property of a
  built-in prototype). Reading a property of \<^verbatim>\<open>undefined\<close> or \<^verbatim>\<open>null\<close> throws a
  TypeError; an object gives the value of its last member of that name, \<^verbatim>\<open>undefined\<close>
  when it has none; a boolean, number, string or array gives \<^verbatim>\<open>undefined\<close>.
\<close>

fun get_prop :: "json option \<Rightarrow> string \<Rightarrow> js_error + json option" where
  "get_prop None k = Inl (JsError ''TypeError'' (''Cannot read properties of undefined (reading '' @ k @ '')''))"
| "get_prop (Some JNull) k = Inl (JsError ''TypeError'' (''Cannot read properties of null (reading '' @ k @ '')''))"
| "get_prop (Some (JObject kvs)) k = Inr (map_of (rev kvs) k)"
| "get_prop (Some v) k = Inr None"

section \<open>The libraries\<close>

text \<open>
  A WHATWG URL object, by its components; \<open>searchParams\<close> is the list of decoded
  name-value pairs. \<open>opaque_path\<close> says whether the URL's path is opaque, as that of
  \<^verbatim>\<open>mailto:a@b.c\<close> is: such a URL has the empty hostname. The program reads
  \<open>hostname\<close>, assigns \<open>pathname\<close> and appends to \<open>searchParams\<close>.
\<close>

record url =
  protocol :: string
  username :: string
  password :: string
  hostname :: string
  port :: string
  pathname :: string
  searchParams :: "(string \<times> string) list"
  hash :: string
  opaque_path :: bool

text \<open>
  \<^verbatim>\<open>url.pathname = value\<close>, for a value that is an absolute path without special
  characters: the setter does nothing on a URL with an opaque path.
\<close>

definition set_pathname :: "string \<Rightarrow> url \<Rightarrow> url" where
  "set_pathname p u = (if opaque_path u then u else u\<lparr>pathname := p\<rparr>)"

text \<open>\<^verbatim>\<open>url.searchParams.append(name, value)\<close>\<close>

definition searchParams_append :: "string \<Rightarrow> string \<Rightarrow> url \<Rightarrow> url" where
  "searchParams_append k v u = u\<lparr>searchParams := searchParams u @ [(k, v)]\<rparr>"

text \<open>The options of \<^verbatim>\<open>new jsforce.OAuth2({...})\<close>, lines 37 to 42.\<close>

record oauth2_options =
  loginUrl :: "string option"
  clientId :: "string option"
  clientSecret :: "string option"
  redirectUri :: "string option"

definition oauth2 :: "(string \<rightharpoonup> string) \<Rightarrow> oauth2_options" where
  "oauth2 env =
     \<lparr>loginUrl = env ''OAUTH_SALESFORCE_LOGIN_URL'',
      clientId = env ''OAUTH_SALESFORCE_CLIENT_ID'',
      clientSecret = env ''OAUTH_SALESFORCE_CLIENT_SECRET'',
      redirectUri = env ''OAUTH_SALESFORCE_REDIRECT_URI''\<rparr>"

text \<open>
  The pure library functions the handlers call:
  \<^item> \<open>json_parse\<close> is \<^verbatim>\<open>JSON.parse\<close> (\<open>Inl\<close> the SyntaxError it throws),
    \<open>json_stringify\<close> is \<^verbatim>\<open>JSON.stringify\<close>;
  \<^item> \<open>url_parse\<close> is \<^verbatim>\<open>new URL(s)\<close> (\<open>Inl\<close> the TypeError it throws),
    \<open>url_href\<close> is \<^verbatim>\<open>URL.prototype.toString\<close>;
  \<^item> \<open>url_format\<close> is \<^verbatim>\<open>url.format({protocol, hostname, pathname, query})\<close>;
  \<^item> \<open>getAuthorizationUrl\<close> is jsforce's \<^verbatim>\<open>oauth2.getAuthorizationUrl(params)\<close>.
\<close>

record lib =
  json_parse :: "string \<Rightarrow> js_error + json"
  json_stringify :: "json \<Rightarrow> string"
  url_parse :: "string \<Rightarrow> js_error + url"
  url_href :: "url \<Rightarrow> string"
  url_format :: "string \<Rightarrow> string option \<Rightarrow> string \<Rightarrow> (string \<times> json) list \<Rightarrow> string"
  getAuthorizationUrl :: "oauth2_options \<Rightarrow> (string \<times> string) list \<Rightarrow> string"

section \<open>Requests, responses and effects\<close>

text \<open>
  The fields of the Express request the handlers read. \<^verbatim>\<open>req.hostname\<close> is
  \<^verbatim>\<open>undefined\<close> for a request without a Host header. \<^verbatim>\<open>req.query.k\<close> is
  \<open>map_of (req_query req) k\<close>, \<open>None\<close> when the parameter is missing.
\<close>

record request =
  req_protocol :: string
  req_hostname :: "string option"
  req_path :: string
  req_query :: "(string \<times> json) list"

text \<open>
  \<^verbatim>\<open>res.redirect(target)\<close> is \<open>Redirect 302 target\<close> (Express's default status);
  \<^verbatim>\<open>res.status(n).send(body)\<close> is \<open>Send n body\<close>.
\<close>

datatype response = Redirect nat string | Send nat string

text \<open>
  Every call that reaches outside the handler is recorded, in order, with what it
  returned: the provider's answer to \<^verbatim>\<open>authorize\<close>, the outcome of each file system
  call and of each subprocess. \<open>SyncFile\<close> stands for a flush of a file to storage
  (\<^verbatim>\<open>filehandle.sync()\<close>). \<open>ConsoleLog\<close> holds the arguments of \<^verbatim>\<open>console.log\<close>.
\<close>

datatype logged = LogText string | LogUrl url

datatype event =
    SetTimeout nat
  | ConsoleLog "logged list"
  | ConsoleError js_error
  | Authorize "json option" "js_error option"
  | ReadFile string "js_error + string"
  | OpenFile string string "js_error option"
  | WriteFile string string "js_error option"
  | SyncFile string
  | Exec string "js_error + string"
  | Respond response

text \<open>
  What the handlers cannot decide: the environment variables, the identity provider's
  answer to a code (\<open>None\<close> is success), the failures of the file system, and what a
  command line does given the files as they are (\<open>Inl\<close> the rejection of a non-zero exit
  or a failed spawn, \<open>Inr\<close> the standard output).
\<close>

record world =
  env :: "string \<rightharpoonup> string"
  authorize :: "json option \<Rightarrow> js_error option"
  read_fault :: "string \<Rightarrow> js_error option"
  open_fault :: "string \<Rightarrow> string \<Rightarrow> js_error option"
  write_fault :: "string \<Rightarrow> string \<Rightarrow> js_error option"
  exec :: "string \<Rightarrow> (string \<rightharpoonup> string) \<Rightarrow> js_error + string"

text \<open>The state a handler runs in: the calls made so far and the files' contents.\<close>

record run =
  trace :: "event list"
  disk :: "string \<rightharpoonup> string"

definition emit :: "event \<Rightarrow> run \<Rightarrow> run" where
  "emit ev r = r\<lparr>trace := trace r @ [ev]\<rparr>"

text \<open>
  A promise: a computation on the state that is fulfilled with a value (\<open>Inr\<close>) or
  rejected with an error (\<open>Inl\<close>). \<open>then_io\<close> is \<^verbatim>\<open>.then(f)\<close>: a rejection skips
  \<open>f\<close>. \<open>catch_io\<close> is the final \<^verbatim>\<open>.catch(h)\<close>.
\<close>

type_synonym 'a io = "run \<Rightarrow> (js_error + 'a) \<times> run"

definition then_io :: "'a io \<Rightarrow> ('a \<Rightarrow> 'b io) \<Rightarrow> 'b io" where
  "then_io m f r = (case m r of (Inl e, r') \<Rightarrow> (Inl e, r') | (Inr x, r') \<Rightarrow> f x r')"

definition catch_io :: "unit io \<Rightarrow> (js_error \<Rightarrow> run \<Rightarrow> run) \<Rightarrow> run \<Rightarrow> run" where
  "catch_io m h r = (case m r of (Inl e, r') \<Rightarrow> h e r' | (Inr x, r') \<Rightarrow> r')"

text \<open>
  \<^verbatim>\<open>fsp.readFile(path, {encoding})\<close>: the file's content, or a rejection (a fault of
  the file system, or no such file).
\<close>

definition read_result :: "world \<Rightarrow> (string \<rightharpoonup> string) \<Rightarrow> string \<Rightarrow> js_error + string" where
  "read_result W files path =
     (case read_fault W path of
        Some e \<Rightarrow> Inl e
      | None \<Rightarrow> (case files path of
                   None \<Rightarrow> Inl (JsError ''Error'' ''ENOENT: no such file or directory'')
                 | Some d \<Rightarrow> Inr d))"

definition readFile :: "world \<Rightarrow> string \<Rightarrow> string io" where
  "readFile W path r = (let res = read_result W (disk r) path in (res, emit (ReadFile path res) r))"

text \<open>
  \<^verbatim>\<open>fsp.open(path, 'w')\<close>: the file is created or truncated; the handle is modelled by
  the path it was opened on.
\<close>

definition fsp_open :: "world \<Rightarrow> string \<Rightarrow> string \<Rightarrow> string io" where
  "fsp_open W path flags r =
     (case open_fault W path flags of
        Some e \<Rightarrow> (Inl e, emit (OpenFile path flags (Some e)) r)
      | None \<Rightarrow> (Inr path, emit (OpenFile path flags None) (r\<lparr>disk := (disk r)(path \<mapsto> [])\<rparr>)))"

text \<open>\<^verbatim>\<open>fileHandle.writeFile(data)\<close>: fulfilled once the data is written.\<close>

definition writeFile :: "world \<Rightarrow> string \<Rightarrow> string \<Rightarrow> unit io" where
  "writeFile W fileHandle data r =
     (case write_fault W fileHandle data of
        Some e \<Rightarrow> (Inl e, emit (WriteFile fileHandle data (Some e)) r)
      | None \<Rightarrow> (Inr (), emit (WriteFile fileHandle data None) (r\<lparr>disk := (disk r)(fileHandle \<mapsto> data)\<rparr>)))"

text \<open>The promisified \<^verbatim>\<open>child_process.exec(command)\<close>, fulfilled with the standard output.\<close>

definition exec_io :: "world \<Rightarrow> string \<Rightarrow> string io" where
  "exec_io W command r = (let res = exec W command (disk r) in (res, emit (Exec command res) r))"

section \<open>The handlers\<close>

text \<open>
  A handler's work is embedded as one run. The callback of \<^verbatim>\<open>authorize\<close> and the
  links of the promise chain fire after the handler has returned; the run takes them in
  the order they fire for a single request. Two requests served at once are not
  modelled.
\<close>

text \<open>\<^verbatim>\<open>handleError(err, res)\<close>, lines 197 to 203.\<close>

definition handleError :: "js_error \<Rightarrow> run \<Rightarrow> run" where
  "handleError err r = emit (Respond (Send 403 ''Unexpected internal error'')) (emit (ConsoleError err) r)"

text \<open>
  What a handler leaves: the exception it threw synchronously (\<open>None\<close> when it returned)
  and the final state. An exception that leaves the handler is Express's to deal with;
  the handler itself has sent nothing then.
\<close>

type_synonym outcome = "js_error option \<times> run"

text \<open>\<^verbatim>\<open>'https://' + process.env.HEROKU_APP_NAME + '.herokuapp.com'\<close>, line 72.\<close>

definition redirectURL_of_instance :: "world \<Rightarrow> string" where
  "redirectURL_of_instance W = ''https://'' @ str (env W ''HEROKU_APP_NAME'') @ ''.herokuapp.com''"

text \<open>\<^verbatim>\<open>app.get('/', ...)\<close>, lines 67 to 78.\<close>

definition get_root :: "lib \<Rightarrow> world \<Rightarrow> request \<Rightarrow> run \<Rightarrow> outcome" where
  "get_root L W req r =
     (case url_parse L (getAuthorizationUrl L (oauth2 (env W)) [(''scope'', ''id'')]) of
        Inl e \<Rightarrow> (Some e, r)
      | Inr authURL0 \<Rightarrow>
          (let authURL = searchParams_append ''state''
                 (json_stringify L (JObject [(''redirectURL'', JString (redirectURL_of_instance W))]))
                 authURL0
           in (None,
               emit (Respond (Redirect 302 (url_href L authURL)))
                 (emit (ConsoleLog [LogText ''Redirecting to oauth authorization url'', LogUrl authURL]) r))))"

text \<open>The two command lines, lines 152 and 157, and the credential file, line 119.\<close>

definition sfdxAuthUrlFilePath :: string where
  "sfdxAuthUrlFilePath = ''vendor/sfdx/open-app-sfdxurl''"

definition store_command :: string where
  \<open>store_command =
     ''sfdx force:auth:sfdxurl:store --setalias sfdxorg --sfdxurlfile "'' @ sfdxAuthUrlFilePath
       @ ''" --noprompt --json''\<close>

definition open_command :: string where
  "open_command = ''sfdx force:org:open --targetusername sfdxorg --urlonly --json''"

text \<open>
  The first link of the promise chain, lines 125 to 137: the environment's
  \<^verbatim>\<open>SFDX_AUTH_URL\<close> unless it is \<^verbatim>\<open>undefined\<close> or empty, the review app's file
  otherwise.
\<close>

definition sfdxAuthUrlFileData :: "world \<Rightarrow> string io" where
  "sfdxAuthUrlFileData W r =
     (case env W ''SFDX_AUTH_URL'' of
        None \<Rightarrow> readFile W (''vendor/sfdx/ra-'' @ str (env W ''HEROKU_APP_NAME'')) r
      | Some s \<Rightarrow>
          if s = [] then readFile W (''vendor/sfdx/ra-'' @ str (env W ''HEROKU_APP_NAME'')) r
          else (Inr s, r))"

text \<open>
  The last link, lines 159 to 163: \<^verbatim>\<open>JSON.parse(result.stdout).result.url\<close>, then
  \<^verbatim>\<open>res.redirect\<close> with that value, whatever it is: Express sets the Location to
  \<^verbatim>\<open>String(value)\<close>.
\<close>

definition result_url :: "lib \<Rightarrow> string \<Rightarrow> js_error + json option" where
  "result_url L stdout =
     (case json_parse L stdout of
        Inl e \<Rightarrow> Inl e
      | Inr jsonResult \<Rightarrow>
          (case get_prop (Some jsonResult) ''result'' of
             Inl e \<Rightarrow> Inl e
           | Inr result \<Rightarrow> get_prop result ''url''))"

definition location_of :: "lib \<Rightarrow> string \<Rightarrow> js_error + string" where
  "location_of L stdout = (case result_url L stdout of Inl e \<Rightarrow> Inl e | Inr v \<Rightarrow> toString v)"

definition redirect_to_org :: "lib \<Rightarrow> string \<Rightarrow> unit io" where
  "redirect_to_org L stdout r =
     (case location_of L stdout of
        Inl e \<Rightarrow> (Inl e, r)
      | Inr target \<Rightarrow> (Inr (), emit (Respond (Redirect 302 target)) r))"

text \<open>The promise chain of lines 125 to 163, before its \<^verbatim>\<open>.catch\<close>.\<close>

definition promise_chain :: "lib \<Rightarrow> world \<Rightarrow> unit io" where
  "promise_chain L W =
     then_io (sfdxAuthUrlFileData W) (\<lambda>data.
     then_io (fsp_open W sfdxAuthUrlFilePath ''w'') (\<lambda>fileHandle.
     then_io (writeFile W fileHandle data) (\<lambda>_.
     then_io (exec_io W store_command) (\<lambda>result.
     then_io (exec_io W open_command) (\<lambda>result.
     redirect_to_org L result)))))"

text \<open>
  The callback of \<^verbatim>\<open>sfClient.authorize\<close>, lines 109 to 179. Nothing between
  \<^verbatim>\<open>try\<close> and the chain can throw, so the outer \<^verbatim>\<open>catch\<close> has no case.
\<close>

definition authorized :: "lib \<Rightarrow> world \<Rightarrow> js_error option \<Rightarrow> run \<Rightarrow> run" where
  "authorized L W err r =
     (case err of
        Some e \<Rightarrow> handleError e r
      | None \<Rightarrow>
          catch_io (promise_chain L W) handleError
            (emit (ConsoleLog [LogText (''sfdxAuthUrlFileData='' @ str (env W ''SFDX_AUTH_URL''))])
              (emit (ConsoleLog [LogText (''sfdxAuthUrlFilePath='' @ sfdxAuthUrlFilePath)]) r)))"

text \<open>Lines 91 to 96: \<^verbatim>\<open>new URL(url.format({...}))\<close>.\<close>

definition requestURL :: "lib \<Rightarrow> request \<Rightarrow> js_error + url" where
  "requestURL L req =
     url_parse L (url_format L (req_protocol req) (req_hostname req) (req_path req) (req_query req))"

text \<open>
  Lines 98 and 99: \<^verbatim>\<open>new URL(JSON.parse(req.query.state).redirectURL)\<close>. JSON.parse
  and \<^verbatim>\<open>new URL\<close> convert their argument to a string first: a missing parameter or
  member is read as the text \<^verbatim>\<open>undefined\<close>.
\<close>

definition redirectURL :: "lib \<Rightarrow> request \<Rightarrow> js_error + url" where
  "redirectURL L req =
     (case toString (map_of (req_query req) ''state'') of
        Inl e \<Rightarrow> Inl e
      | Inr text \<Rightarrow>
          (case json_parse L text of
             Inl e \<Rightarrow> Inl e
           | Inr state \<Rightarrow>
               (case get_prop (Some state) ''redirectURL'' of
                  Inl e \<Rightarrow> Inl e
                | Inr v \<Rightarrow>
                    (case toString v of
                       Inl e \<Rightarrow> Inl e
                     | Inr s \<Rightarrow> url_parse L s))))"

text \<open>
  Lines 183 to 185: the URL a request for another instance is sent on to. Each
  \<^verbatim>\<open>append\<close> converts its value to a string, and throws if that conversion does.
\<close>

definition forward_target :: "request \<Rightarrow> url \<Rightarrow> js_error + url" where
  "forward_target req u =
     (case toString (map_of (req_query req) ''state'') of
        Inl e \<Rightarrow> Inl e
      | Inr s \<Rightarrow>
          (case toString (map_of (req_query req) ''code'') of
             Inl e \<Rightarrow> Inl e
           | Inr c \<Rightarrow>
               Inr (searchParams_append ''code'' c
                      (searchParams_append ''state'' s
                         (set_pathname ''/oauth2/callback'' u)))))"

text \<open>\<^verbatim>\<open>app.get('/oauth2/callback', ...)\<close>, lines 83 to 192.\<close>

definition oauth2_callback :: "lib \<Rightarrow> world \<Rightarrow> request \<Rightarrow> run \<Rightarrow> outcome" where
  "oauth2_callback L W req r0 =
     (let r = emit (SetTimeout (1000 * 60 * 10)) r0 in
      case requestURL L req of
        Inl e \<Rightarrow> (Some e, r)
      | Inr request_url \<Rightarrow>
          (case redirectURL L req of
             Inl e \<Rightarrow> (Some e, r)
           | Inr redirect_url \<Rightarrow>
               if hostname redirect_url = hostname request_url then
                 (let code = map_of (req_query req) ''code''; err = authorize W code
                  in (None, authorized L W err (emit (Authorize code err) r)))
               else
                 (case forward_target req redirect_url of
                    Inl e \<Rightarrow> (Some e, r)
                  | Inr target_url \<Rightarrow>
                      (let target = url_href L target_url
                       in (None,
                           emit (Respond (Redirect 302 target))
                             (emit (ConsoleLog [LogText (''Redirecting to desired host: '' @ target)])
                                r))))))"

section \<open>Reading a trace\<close>

fun responses :: "event list \<Rightarrow> response list" where
  "responses [] = []"
| "responses (Respond x # evs) = x # responses evs"
| "responses (ev # evs) = responses evs"

fun commands :: "event list \<Rightarrow> string list" where
  "commands [] = []"
| "commands (Exec c res # evs) = c # commands evs"
| "commands (ev # evs) = commands evs"

fun exchanges :: "event list \<Rightarrow> json option list" where
  "exchanges [] = []"
| "exchanges (Authorize code res # evs) = code # exchanges evs"
| "exchanges (ev # evs) = exchanges evs"

fun reads :: "event list \<Rightarrow> string list" where
  "reads [] = []"
| "reads (ReadFile path res # evs) = path # reads evs"
| "reads (ev # evs) = reads evs"

fun writes :: "event list \<Rightarrow> (string \<times> string) list" where
  "writes [] = []"
| "writes (WriteFile path data res # evs) = (path, data) # writes evs"
| "writes (ev # evs) = writes evs"

text \<open>A call that failed: the provider, the file system or a subprocess reported an error.\<close>

fun failed :: "event \<Rightarrow> bool" where
  "failed (Authorize code (Some e)) = True"
| "failed (ReadFile path (Inl e)) = True"
| "failed (OpenFile path flags (Some e)) = True"
| "failed (WriteFile path data (Some e)) = True"
| "failed (Exec c (Inl e)) = True"
| "failed ev = False"

definition start :: "(string \<rightharpoonup> string) \<Rightarrow> run" where
  "start files = \<lparr>trace = [], disk = files\<rparr>"

section \<open>Properties of a run\<close>

text \<open>
  The state value of a callback request is unusable when reading its
  \<^verbatim>\<open>redirectURL\<close> throws (the state is \<^verbatim>\<open>null\<close>), when it has no such member, or
  when \<^verbatim>\<open>new URL\<close> rejects the member's value (or cannot convert it to a string).
\<close>

definition redirectURL_unusable :: "lib \<Rightarrow> json \<Rightarrow> bool" where
  "redirectURL_unusable L state =
     (case get_prop (Some state) ''redirectURL'' of
        Inl e \<Rightarrow> True
      | Inr None \<Rightarrow> True
      | Inr (Some j) \<Rightarrow> (case js_string j of Inl e \<Rightarrow> True | Inr s \<Rightarrow> isl (url_parse L s)))"

text \<open>
  Whether every run of the store command comes after the credential file was flushed to
  storage, with no write to any file in between; the flag says whether the file is
  flushed at this point of the trace.
\<close>

fun flushed_before_store :: "bool \<Rightarrow> event list \<Rightarrow> bool" where
  "flushed_before_store flushed [] = True"
| "flushed_before_store flushed (WriteFile path d res # evs) = flushed_before_store False evs"
| "flushed_before_store flushed (SyncFile path # evs) =
     flushed_before_store (path = sfdxAuthUrlFilePath) evs"
| "flushed_before_store flushed (Exec c res # evs) =
     ((if c = store_command then flushed else True) \<and> flushed_before_store flushed evs)"
| "flushed_before_store flushed (ev # evs) = flushed_before_store flushed evs"

text \<open>
  A failure of a command line as the specification lists them: either step exits
  non-zero or prints malformed JSON, or the open step prints JSON without
  \<^verbatim>\<open>result.url\<close>.
\<close>

fun cli_failure_of_spec :: "lib \<Rightarrow> event \<Rightarrow> bool" where
  "cli_failure_of_spec L (Exec c (Inl e)) = True"
| "cli_failure_of_spec L (Exec c (Inr out)) =
     (if c = open_command
      then (case result_url L out of Inl e \<Rightarrow> True | Inr None \<Rightarrow> True | Inr (Some v) \<Rightarrow> False)
      else isl (json_parse L out))"
| "cli_failure_of_spec L ev = False"

text \<open>
  Output of the open command out of which no \<^verbatim>\<open>result.url\<close> can be read: it is
  malformed JSON, or its value is \<^verbatim>\<open>null\<close> or has no \<^verbatim>\<open>result\<close> member, or that
  member is \<^verbatim>\<open>null\<close>.
\<close>

definition output_without_result :: "lib \<Rightarrow> string \<Rightarrow> bool" where
  "output_without_result L out =
     (case json_parse L out of
        Inl e \<Rightarrow> True
      | Inr (JObject kvs) \<Rightarrow>
          (case map_of (rev kvs) ''result'' of None \<Rightarrow> True | Some v \<Rightarrow> v = JNull)
      | Inr v \<Rightarrow> True)"

fun unreadable_output :: "lib \<Rightarrow> event \<Rightarrow> bool" where
  "unreadable_output L (Exec c (Inr out)) = (c = open_command \<and> output_without_result L out)"
| "unreadable_output L ev = False"

section \<open>Scenarios\<close>

text \<open>
  Concrete inputs for the theorems below. \<open>node\<close> gives the libraries' answers on the
  texts and URLs of these scenarios: its parsers are tables of them, its serialisers
  cover the characters and the shapes that occur in them.
\<close>

definition percent :: "char \<Rightarrow> string" where
  \<open>percent c =
     (if c = CHR ''{'' then ''%7B'' else if c = CHR ''}'' then ''%7D''
      else if c = CHR 0x22 then ''%22'' else if c = CHR '':'' then ''%3A''
      else if c = CHR ''/'' then ''%2F'' else if c = CHR ''@'' then ''%40''
      else if c = CHR '','' then ''%2C'' else [c])\<close>

definition query_string :: "(string \<times> string) list \<Rightarrow> string" where
  "query_string q =
     join ''&'' (map (\<lambda>(k, v). concat (map percent k) @ ''='' @ concat (map percent v)) q)"

text \<open>
  The name-value pairs of a query object: one pair for a string, one pair for each
  string of an array.
\<close>

fun pairs_of :: "string \<Rightarrow> json \<Rightarrow> (string \<times> string) list" where
  "pairs_of k (JString s) = [(k, s)]"
| "pairs_of k (JArray xs) = map (\<lambda>x. (k, case x of JString s \<Rightarrow> s | _ \<Rightarrow> [])) xs"
| "pairs_of k v = [(k, [])]"

definition query_pairs :: "(string \<times> json) list \<Rightarrow> (string \<times> string) list" where
  "query_pairs q = concat (map (\<lambda>(k, v). pairs_of k v) q)"

definition format :: "string \<Rightarrow> string option \<Rightarrow> string \<Rightarrow> (string \<times> json) list \<Rightarrow> string" where
  "format p h path q =
     p @ '':'' @ (case h of None \<Rightarrow> [] | Some x \<Rightarrow> ''//'' @ x) @ path
       @ (if q = [] then [] else ''?'' @ query_string (query_pairs q))"

definition href :: "url \<Rightarrow> string" where
  "href u =
     protocol u
       @ (if opaque_path u then []
          else ''//'' @ hostname u @ (if port u = [] then [] else '':'' @ port u))
       @ pathname u
       @ (if searchParams u = [] then [] else ''?'' @ query_string (searchParams u)) @ hash u"

definition authorization_url :: "oauth2_options \<Rightarrow> (string \<times> string) list \<Rightarrow> string" where
  "authorization_url opts params =
     (case loginUrl opts of None \<Rightarrow> ''https://login.salesforce.com'' | Some l \<Rightarrow> l)
       @ ''/services/oauth2/authorize?''
       @ query_string ([(''response_type'', ''code''),
                        (''client_id'', (case clientId opts of None \<Rightarrow> [] | Some c \<Rightarrow> c)),
                        (''redirect_uri'', (case redirectUri opts of None \<Rightarrow> [] | Some c \<Rightarrow> c))]
                       @ params)"

definition https :: "string \<Rightarrow> string \<Rightarrow> (string \<times> string) list \<Rightarrow> url" where
  "https host path q =
     \<lparr>protocol = ''https:'', username = [], password = [], hostname = host, port = [],
      pathname = path, searchParams = q, hash = [], opaque_path = False\<rparr>"

definition mailto :: "string \<Rightarrow> url" where
  "mailto address =
     \<lparr>protocol = ''mailto:'', username = [], password = [], hostname = [], port = [],
      pathname = address, searchParams = [], hash = [], opaque_path = True\<rparr>"

definition callback_request :: "string option \<Rightarrow> (string \<times> json) list \<Rightarrow> request" where
  "callback_request host q =
     \<lparr>req_protocol = ''https'', req_hostname = host, req_path = ''/oauth2/callback'',
      req_query = q\<rparr>"

definition state_here :: string where
  \<open>state_here = ''{"redirectURL":"https://app.herokuapp.com"}''\<close>

definition state_other :: string where
  \<open>state_other = ''{"redirectURL":"https://other.herokuapp.com"}''\<close>

definition state_oauth2 :: string where
  \<open>state_oauth2 = ''{"redirectURL":"https://oauth2"}''\<close>

definition state_mailto :: string where
  \<open>state_mailto = ''{"redirectURL":"mailto:a@b.c"}''\<close>

text \<open>Requests that reach the instance \<^verbatim>\<open>app\<close>, with its own state and with a sibling's.\<close>

definition local_request :: request where
  "local_request =
     callback_request (Some ''app.herokuapp.com'')
       [(''code'', JString ''ABC''), (''state'', JString state_here)]"

definition forward_request :: request where
  "forward_request =
     callback_request (Some ''app.herokuapp.com'')
       [(''code'', JString ''ABC''), (''state'', JString state_other)]"

text \<open>The sibling's state again, in a request that reaches the sibling itself.\<close>

definition sibling_request :: request where
  "sibling_request =
     callback_request (Some ''other.herokuapp.com'')
       [(''code'', JString ''ABC''), (''state'', JString state_other)]"

definition stateless_request :: request where
  "stateless_request = callback_request (Some ''app.herokuapp.com'') [(''code'', JString ''ABC'')]"

definition empty_state_request :: request where
  "empty_state_request =
     callback_request (Some ''app.herokuapp.com'')
       [(''code'', JString ''ABC''), (''state'', JString ''{}'')]"

text \<open>A request without a Host header, whose state names the host \<^verbatim>\<open>oauth2\<close>.\<close>

definition hostless_request :: request where
  "hostless_request =
     callback_request None [(''code'', JString ''ABC''), (''state'', JString state_oauth2)]"

text \<open>
  Requests to be forwarded: one whose state names a \<^verbatim>\<open>mailto:\<close> URL, one with the
  parameter \<^verbatim>\<open>code\<close> given twice, one without it.
\<close>

definition mailto_request :: request where
  "mailto_request =
     callback_request (Some ''app.herokuapp.com'')
       [(''code'', JString ''ABC''), (''state'', JString state_mailto)]"

definition repeated_code_request :: request where
  "repeated_code_request =
     callback_request (Some ''app.herokuapp.com'')
       [(''code'', JArray [JString ''ABC'', JString ''XYZ'']), (''state'', JString state_other)]"

definition codeless_request :: request where
  "codeless_request =
     callback_request (Some ''app.herokuapp.com'') [(''state'', JString state_other)]"

text \<open>
  A request to be forwarded whose \<^verbatim>\<open>code\<close> is written with brackets,
  \<^verbatim>\<open>code[toString]=x\<close>: an object with a member named \<^verbatim>\<open>toString\<close>.
\<close>

definition bracket_code_request :: request where
  "bracket_code_request =
     callback_request (Some ''app.herokuapp.com'')
       [(''code'', JObject [(''toString'', JString ''x'')]), (''state'', JString state_other)]"

definition root_request :: request where
  "root_request =
     \<lparr>req_protocol = ''https'', req_hostname = Some ''app.herokuapp.com'', req_path = ''/'',
      req_query = []\<rparr>"

definition scenario_env :: "string \<rightharpoonup> string" where
  "scenario_env =
     [''OAUTH_SALESFORCE_LOGIN_URL'' \<mapsto> ''https://login.salesforce.com'',
      ''OAUTH_SALESFORCE_CLIENT_ID'' \<mapsto> ''client'',
      ''OAUTH_SALESFORCE_CLIENT_SECRET'' \<mapsto> ''secret'',
      ''OAUTH_SALESFORCE_REDIRECT_URI'' \<mapsto> ''https://app.herokuapp.com/oauth2/callback'',
      ''HEROKU_APP_NAME'' \<mapsto> ''app'',
      ''SFDX_AUTH_URL'' \<mapsto> ''force://token@org.my.salesforce.com'']"

text \<open>
  What \<^verbatim>\<open>new URL\<close> gives for the URLs of the scenarios. The URL formatted for the
  request without a Host header is \<^verbatim>\<open>https:/oauth2/callback?...\<close>, which parses with
  the hostname \<^verbatim>\<open>oauth2\<close> and the path \<^verbatim>\<open>/callback\<close>.
\<close>

definition known_urls :: "(string \<times> url) list" where
  "known_urls =
     [(''https://app.herokuapp.com'', https ''app.herokuapp.com'' ''/'' []),
      (''https://other.herokuapp.com'', https ''other.herokuapp.com'' ''/'' []),
      (''https://oauth2'', https ''oauth2'' ''/'' []),
      (''mailto:a@b.c'', mailto ''a@b.c''),
      (authorization_url (oauth2 scenario_env) [(''scope'', ''id'')],
       https ''login.salesforce.com'' ''/services/oauth2/authorize''
         [(''response_type'', ''code''), (''client_id'', ''client''),
          (''redirect_uri'', ''https://app.herokuapp.com/oauth2/callback''), (''scope'', ''id'')]),
      (format (req_protocol hostless_request) (req_hostname hostless_request)
         (req_path hostless_request) (req_query hostless_request),
       https ''oauth2'' ''/callback'' (query_pairs (req_query hostless_request)))]
     @ map (\<lambda>req. (format (req_protocol req) (req_hostname req) (req_path req) (req_query req),
                     https (case req_hostname req of None \<Rightarrow> [] | Some h \<Rightarrow> h) (req_path req)
                       (query_pairs (req_query req))))
         [local_request, forward_request, sibling_request, stateless_request,
          empty_state_request, mailto_request, repeated_code_request, codeless_request,
          bracket_code_request]"

definition known_json :: "(string \<times> json) list" where
  \<open>known_json =
     [(state_here, JObject [(''redirectURL'', JString ''https://app.herokuapp.com'')]),
      (state_other, JObject [(''redirectURL'', JString ''https://other.herokuapp.com'')]),
      (state_oauth2, JObject [(''redirectURL'', JString ''https://oauth2'')]),
      (state_mailto, JObject [(''redirectURL'', JString ''mailto:a@b.c'')]),
      (''{}'', JObject []),
      (''{"result":{"url":"https://org.my.salesforce.com/secret"}}'',
       JObject [(''result'', JObject [(''url'', JString ''https://org.my.salesforce.com/secret'')])]),
      (''{"result":{}}'', JObject [(''result'', JObject [])])]\<close>

definition node :: lib where
  \<open>node =
     \<lparr>json_parse = (\<lambda>s. case map_of known_json s of
                            None \<Rightarrow> Inl (JsError ''SyntaxError'' ''Unexpected token in JSON'')
                          | Some j \<Rightarrow> Inr j),
      json_stringify = (\<lambda>j. case j of
                            JObject [(k, JString v)] \<Rightarrow> ''{"'' @ k @ ''":"'' @ v @ ''"}''
                          | _ \<Rightarrow> ''null''),
      url_parse = (\<lambda>s. case map_of known_urls s of
                           None \<Rightarrow> Inl (JsError ''TypeError'' ''Invalid URL'')
                         | Some u \<Rightarrow> Inr u),
      url_href = href,
      url_format = format,
      getAuthorizationUrl = authorization_url\<rparr>\<close>

text \<open>
  A world where everything works: the provider accepts the code \<^verbatim>\<open>ABC\<close>, the file
  system has no fault, and both command lines succeed.
\<close>

definition works :: world where
  \<open>works =
     \<lparr>env = scenario_env,
      authorize = (\<lambda>code. if code = Some (JString ''ABC'') then None
                           else Some (JsError ''invalid_grant'' ''authentication failure'')),
      read_fault = (\<lambda>path. None),
      open_fault = (\<lambda>path flags. None),
      write_fault = (\<lambda>path d. None),
      exec = (\<lambda>command files.
                if command = store_command then Inr ''{"status":0}''
                else if command = open_command
                  then Inr ''{"result":{"url":"https://org.my.salesforce.com/secret"}}''
                else Inl (JsError ''Error'' ''Command failed''))\<rparr>\<close>

text \<open>The same world, but the store command exits non-zero.\<close>

definition store_fails :: world where
  "store_fails =
     works\<lparr>exec := (\<lambda>command files.
                if command = store_command then Inl (JsError ''Error'' ''Command failed'')
                else exec works command files)\<rparr>"

text \<open>The same world, but the store command exits with status 0 and prints no JSON.\<close>

definition store_garbage :: world where
  "store_garbage =
     works\<lparr>exec := (\<lambda>command files.
                if command = store_command then Inr ''oops''
                else exec works command files)\<rparr>"

text \<open>The same world, but the open command exits with status 0 and prints no JSON.\<close>

definition open_garbage :: world where
  "open_garbage =
     works\<lparr>exec := (\<lambda>command files.
                if command = open_command then Inr ''oops''
                else exec works command files)\<rparr>"

text \<open>The same world, but the open command prints a result that has no \<^verbatim>\<open>url\<close>.\<close>

definition no_url :: world where
  \<open>no_url =
     works\<lparr>exec := (\<lambda>command files.
                if command = open_command then Inr ''{"result":{}}''
                else exec works command files)\<rparr>\<close>

text \<open>
  A review app: no \<^verbatim>\<open>SFDX_AUTH_URL\<close> in the environment, the credential in the file
  named after the app.
\<close>

definition review_app :: world where
  "review_app = works\<lparr>env := scenario_env(''SFDX_AUTH_URL'' := None)\<rparr>"

definition review_files :: "string \<rightharpoonup> string" where
  "review_files = [''vendor/sfdx/ra-app'' \<mapsto> ''force://review@scratch.my.salesforce.com'']"

section \<open>The runs of the callback handler\<close>

text \<open>
  The lemmas of this section list the runs of the promise chain and of the callback
  handler: each case names what the libraries and the world answered and gives the whole
  trace. The theorems of the next sections are read off this list.
\<close>

lemma trace_emit [simp]: "trace (emit ev r) = trace r @ [ev]"
  and disk_emit [simp]: "disk (emit ev r) = disk r"
  by (simp_all add: emit_def)

lemma sfdxAuthUrlFileData_cases:
  fixes W r
  defines "ra \<equiv> ''vendor/sfdx/ra-'' @ str (env W ''HEROKU_APP_NAME'')"
  obtains
    (Env) s where "env W ''SFDX_AUTH_URL'' = Some s" "s \<noteq> []" "sfdxAuthUrlFileData W r = (Inr s, r)"
  | (File) "env W ''SFDX_AUTH_URL'' = None \<or> env W ''SFDX_AUTH_URL'' = Some []"
      "sfdxAuthUrlFileData W r =
         (read_result W (disk r) ra, emit (ReadFile ra (read_result W (disk r) ra)) r)"
proof (cases "env W ''SFDX_AUTH_URL''")
  case None
  then show ?thesis
    using File by (simp add: sfdxAuthUrlFileData_def readFile_def Let_def ra_def)
next
  case (Some s)
  then show ?thesis
    using Env [of s] File
    by (cases "s = []") (simp_all add: sfdxAuthUrlFileData_def readFile_def Let_def ra_def)
qed

lemma stored_cases:
  fixes L W r "data"
  defines "P \<equiv> sfdxAuthUrlFilePath"
  defines "m \<equiv> then_io (fsp_open W sfdxAuthUrlFilePath ''w'') (\<lambda>fileHandle.
     then_io (writeFile W fileHandle data) (\<lambda>_.
     then_io (exec_io W store_command) (\<lambda>result.
     then_io (exec_io W open_command) (\<lambda>result.
     redirect_to_org L result))))"
  obtains
    (OpenFail) e where "open_fault W P ''w'' = Some e"
      "fst (m r) = Inl e"
      "trace (snd (m r)) = trace r @ [OpenFile P ''w'' (Some e)]"
  | (WriteFail) e where "open_fault W P ''w'' = None" "write_fault W P data = Some e"
      "fst (m r) = Inl e"
      "trace (snd (m r)) = trace r @ [OpenFile P ''w'' None, WriteFile P data (Some e)]"
  | (StoreFail) e where "open_fault W P ''w'' = None" "write_fault W P data = None"
      "exec W store_command ((disk r)(P \<mapsto> data)) = Inl e"
      "fst (m r) = Inl e"
      "trace (snd (m r)) = trace r @ [OpenFile P ''w'' None, WriteFile P data None,
                                Exec store_command (Inl e)]"
  | (OpenCmdFail) e out where "open_fault W P ''w'' = None" "write_fault W P data = None"
      "exec W store_command ((disk r)(P \<mapsto> data)) = Inr out"
      "exec W open_command ((disk r)(P \<mapsto> data)) = Inl e"
      "fst (m r) = Inl e"
      "trace (snd (m r)) = trace r @ [OpenFile P ''w'' None, WriteFile P data None,
                                Exec store_command (Inr out), Exec open_command (Inl e)]"
  | (OutputFail) e out out' where "open_fault W P ''w'' = None" "write_fault W P data = None"
      "exec W store_command ((disk r)(P \<mapsto> data)) = Inr out"
      "exec W open_command ((disk r)(P \<mapsto> data)) = Inr out'"
      "location_of L out' = Inl e"
      "fst (m r) = Inl e"
      "trace (snd (m r)) = trace r @ [OpenFile P ''w'' None, WriteFile P data None,
                                Exec store_command (Inr out), Exec open_command (Inr out')]"
  | (Done) target out out' where "open_fault W P ''w'' = None" "write_fault W P data = None"
      "exec W store_command ((disk r)(P \<mapsto> data)) = Inr out"
      "exec W open_command ((disk r)(P \<mapsto> data)) = Inr out'"
      "location_of L out' = Inr target"
      "fst (m r) = Inr ()"
      "trace (snd (m r)) = trace r @ [OpenFile P ''w'' None, WriteFile P data None,
                                Exec store_command (Inr out), Exec open_command (Inr out'),
                                Respond (Redirect 302 target)]"
proof (cases "open_fault W P ''w''")
  case (Some e)
  then show ?thesis
    using OpenFail [of e] by (simp add: m_def P_def then_io_def fsp_open_def)
next
  case no_open: None
  show ?thesis
  proof (cases "write_fault W P data")
    case (Some e)
    then show ?thesis
      using WriteFail [of e] no_open
      by (simp add: m_def P_def then_io_def fsp_open_def writeFile_def)
  next
    case no_write: None
    show ?thesis
    proof (cases "exec W store_command ((disk r)(P \<mapsto> data))")
      case (Inl e)
      then show ?thesis
        using StoreFail [of e] no_open no_write
        by (simp add: m_def P_def then_io_def fsp_open_def writeFile_def exec_io_def Let_def)
    next
      case store: (Inr out)
      show ?thesis
      proof (cases "exec W open_command ((disk r)(P \<mapsto> data))")
        case (Inl e)
        then show ?thesis
          using OpenCmdFail [of out e] no_open no_write store
          by (simp add: m_def P_def then_io_def fsp_open_def writeFile_def exec_io_def Let_def)
      next
        case opened: (Inr out')
        show ?thesis
        proof (cases "location_of L out'")
          case (Inl e)
          then show ?thesis
            using OutputFail [of out out' e] no_open no_write store opened
            by (simp add: m_def P_def then_io_def fsp_open_def writeFile_def exec_io_def
                redirect_to_org_def Let_def)
        next
          case (Inr target)
          then show ?thesis
            using Done [of out out' target] no_open no_write store opened
            by (simp add: m_def P_def then_io_def fsp_open_def writeFile_def exec_io_def
                redirect_to_org_def Let_def)
        qed
      qed
    qed
  qed
qed


lemma promise_chain_cases:
  fixes L W r
  defines "P \<equiv> sfdxAuthUrlFilePath"
  defines "ra \<equiv> ''vendor/sfdx/ra-'' @ str (env W ''HEROKU_APP_NAME'')"
  defines "m \<equiv> promise_chain L W"
  defines "src \<equiv> env W ''SFDX_AUTH_URL''"
  obtains
    (ReadFail) e where "src = None \<or> src = Some []" "read_result W (disk r) ra = Inl e"
      "fst (m r) = Inl e" "trace (snd (m r)) = trace r @ [ReadFile ra (Inl e)]"
  | (OpenFail) pre d e where
      "src = Some d \<and> d \<noteq> [] \<and> pre = []
       \<or> (src = None \<or> src = Some []) \<and> read_result W (disk r) ra = Inr d \<and> pre = [ReadFile ra (Inr d)]"
      "open_fault W P ''w'' = Some e"
      "fst (m r) = Inl e"
      "trace (snd (m r)) = trace r @ pre @ [OpenFile P ''w'' (Some e)]"
  | (WriteFail) pre d e where
      "src = Some d \<and> d \<noteq> [] \<and> pre = []
       \<or> (src = None \<or> src = Some []) \<and> read_result W (disk r) ra = Inr d \<and> pre = [ReadFile ra (Inr d)]"
      "open_fault W P ''w'' = None" "write_fault W P d = Some e"
      "fst (m r) = Inl e"
      "trace (snd (m r)) = trace r @ pre @ [OpenFile P ''w'' None, WriteFile P d (Some e)]"
  | (StoreFail) pre d e where
      "src = Some d \<and> d \<noteq> [] \<and> pre = []
       \<or> (src = None \<or> src = Some []) \<and> read_result W (disk r) ra = Inr d \<and> pre = [ReadFile ra (Inr d)]"
      "open_fault W P ''w'' = None" "write_fault W P d = None"
      "exec W store_command ((disk r)(P \<mapsto> d)) = Inl e"
      "fst (m r) = Inl e"
      "trace (snd (m r)) = trace r @ pre @ [OpenFile P ''w'' None, WriteFile P d None,
                                Exec store_command (Inl e)]"
  | (OpenCmdFail) pre d e out where
      "src = Some d \<and> d \<noteq> [] \<and> pre = []
       \<or> (src = None \<or> src = Some []) \<and> read_result W (disk r) ra = Inr d \<and> pre = [ReadFile ra (Inr d)]"
      "open_fault W P ''w'' = None" "write_fault W P d = None"
      "exec W store_command ((disk r)(P \<mapsto> d)) = Inr out"
      "exec W open_command ((disk r)(P \<mapsto> d)) = Inl e"
      "fst (m r) = Inl e"
      "trace (snd (m r)) = trace r @ pre @ [OpenFile P ''w'' None, WriteFile P d None,
                                Exec store_command (Inr out), Exec open_command (Inl e)]"
  | (OutputFail) pre d e out out' where
      "src = Some d \<and> d \<noteq> [] \<and> pre = []
       \<or> (src = None \<or> src = Some []) \<and> read_result W (disk r) ra = Inr d \<and> pre = [ReadFile ra (Inr d)]"
      "open_fault W P ''w'' = None" "write_fault W P d = None"
      "exec W store_command ((disk r)(P \<mapsto> d)) = Inr out"
      "exec W open_command ((disk r)(P \<mapsto> d)) = Inr out'"
      "location_of L out' = Inl e"
      "fst (m r) = Inl e"
      "trace (snd (m r)) = trace r @ pre @ [OpenFile P ''w'' None, WriteFile P d None,
                                Exec store_command (Inr out), Exec open_command (Inr out')]"
  | (Done) pre d target out out' where
      "src = Some d \<and> d \<noteq> [] \<and> pre = []
       \<or> (src = None \<or> src = Some []) \<and> read_result W (disk r) ra = Inr d \<and> pre = [ReadFile ra (Inr d)]"
      "open_fault W P ''w'' = None" "write_fault W P d = None"
      "exec W store_command ((disk r)(P \<mapsto> d)) = Inr out"
      "exec W open_command ((disk r)(P \<mapsto> d)) = Inr out'"
      "location_of L out' = Inr target"
      "fst (m r) = Inr ()"
      "trace (snd (m r)) = trace r @ pre @ [OpenFile P ''w'' None, WriteFile P d None,
                                Exec store_command (Inr out), Exec open_command (Inr out'),
                                Respond (Redirect 302 target)]"
proof -
  have step: "m r = (case sfdxAuthUrlFileData W r of
                       (Inl e, r') \<Rightarrow> (Inl e, r')
                     | (Inr d, r') \<Rightarrow>
                         then_io (fsp_open W sfdxAuthUrlFilePath ''w'') (\<lambda>fileHandle.
                         then_io (writeFile W fileHandle d) (\<lambda>_.
                         then_io (exec_io W store_command) (\<lambda>result.
                         then_io (exec_io W open_command) (\<lambda>result.
                         redirect_to_org L result)))) r')"
    by (simp add: m_def promise_chain_def then_io_def)
  show ?thesis
  proof (cases rule: sfdxAuthUrlFileData_cases [of W r])
    case (Env s)
    then have m: "m r = then_io (fsp_open W sfdxAuthUrlFilePath ''w'') (\<lambda>fileHandle.
                         then_io (writeFile W fileHandle s) (\<lambda>_.
                         then_io (exec_io W store_command) (\<lambda>result.
                         then_io (exec_io W open_command) (\<lambda>result.
                         redirect_to_org L result)))) r"
      by (simp add: step)
    from Env have src: "src = Some s \<and> s \<noteq> [] \<and> [] = []
       \<or> (src = None \<or> src = Some []) \<and> read_result W (disk r) ra = Inr s \<and> [] = [ReadFile ra (Inr s)]"
      by (simp add: src_def)
    show ?thesis
      by (rule stored_cases [where W = W and L = L and data = s and r = r])
         (use src in \<open>simp_all add: m P_def OpenFail [where pre = "[]" and d = s] WriteFail [where pre = "[]" and d = s]
            StoreFail [where pre = "[]" and d = s] OpenCmdFail [where pre = "[]" and d = s] OutputFail [where pre = "[]" and d = s] Done [where pre = "[]" and d = s]\<close>)
  next
    case File
    show ?thesis
    proof (cases "read_result W (disk r) ra")
      case (Inl e)
      with File show ?thesis
        using ReadFail [of e] by (simp add: step src_def ra_def)
    next
      case (Inr d)
      define r1 where "r1 = emit (ReadFile ra (Inr d)) r"
      from File Inr have m: "m r = then_io (fsp_open W sfdxAuthUrlFilePath ''w'') (\<lambda>fileHandle.
                         then_io (writeFile W fileHandle d) (\<lambda>_.
                         then_io (exec_io W store_command) (\<lambda>result.
                         then_io (exec_io W open_command) (\<lambda>result.
                         redirect_to_org L result)))) r1"
        by (simp add: step r1_def ra_def)
      have r1: "trace r1 = trace r @ [ReadFile ra (Inr d)]" "disk r1 = disk r"
        by (simp_all add: r1_def)
      from File Inr have src: "src = Some d \<and> d \<noteq> [] \<and> [ReadFile ra (Inr d)] = []
         \<or> (src = None \<or> src = Some []) \<and> read_result W (disk r) ra = Inr d
             \<and> [ReadFile ra (Inr d)] = [ReadFile ra (Inr d)]"
        by (simp add: src_def)
      show ?thesis
        by (rule stored_cases [where W = W and L = L and data = d and r = r1])
           (use src in \<open>simp_all add: m r1 P_def OpenFail [where pre = "[ReadFile ra (Inr d)]" and d = d]
              WriteFail [where pre = "[ReadFile ra (Inr d)]" and d = d] StoreFail [where pre = "[ReadFile ra (Inr d)]" and d = d]
              OpenCmdFail [where pre = "[ReadFile ra (Inr d)]" and d = d] OutputFail [where pre = "[ReadFile ra (Inr d)]" and d = d]
              Done [where pre = "[ReadFile ra (Inr d)]" and d = d]\<close>)
    qed
  qed
qed


lemma catch_io_trace:
  "trace (catch_io m handleError r) =
     (case fst (m r) of
        Inl e \<Rightarrow> trace (snd (m r)) @ [ConsoleError e, Respond (Send 403 ''Unexpected internal error'')]
      | Inr x \<Rightarrow> trace (snd (m r)))"
  by (simp add: catch_io_def handleError_def split: prod.splits sum.splits)

lemma oauth2_callback_cases:
  fixes L W req files
  defines "out \<equiv> oauth2_callback L W req (start files)"
  defines "code \<equiv> map_of (req_query req) ''code''"
  defines "P \<equiv> sfdxAuthUrlFilePath"
  defines "ra \<equiv> ''vendor/sfdx/ra-'' @ str (env W ''HEROKU_APP_NAME'')"
  defines "head \<equiv> [SetTimeout 600000, Authorize code None,
                     ConsoleLog [LogText (''sfdxAuthUrlFilePath='' @ sfdxAuthUrlFilePath)],
                     ConsoleLog [LogText (''sfdxAuthUrlFileData='' @ str (env W ''SFDX_AUTH_URL''))]]"
  defines "denied \<equiv> Respond (Send 403 ''Unexpected internal error'')"
  obtains
    (BadRequest) e where "requestURL L req = Inl e"
      "fst out = Some e" "trace (snd out) = [SetTimeout 600000]"
  | (BadState) ru e where "requestURL L req = Inr ru" "redirectURL L req = Inl e"
      "fst out = Some e" "trace (snd out) = [SetTimeout 600000]"
  | (ForwardThrows) ru u e where "requestURL L req = Inr ru" "redirectURL L req = Inr u"
      "hostname u \<noteq> hostname ru" "forward_target req u = Inl e"
      "fst out = Some e" "trace (snd out) = [SetTimeout 600000]"
  | (Forward) ru u t where "requestURL L req = Inr ru" "redirectURL L req = Inr u"
      "hostname u \<noteq> hostname ru" "forward_target req u = Inr t" "fst out = None"
      "trace (snd out) =
         [SetTimeout 600000,
          ConsoleLog [LogText (''Redirecting to desired host: '' @ url_href L t)],
          Respond (Redirect 302 (url_href L t))]"
  | (Refused) ru u e where "requestURL L req = Inr ru" "redirectURL L req = Inr u"
      "hostname u = hostname ru" "authorize W code = Some e" "fst out = None"
      "trace (snd out) = [SetTimeout 600000, Authorize code (Some e), ConsoleError e, denied]"
  | (ReadFail) ru u e where "requestURL L req = Inr ru" "redirectURL L req = Inr u" "hostname u = hostname ru"
      "authorize W code = None" "fst out = None"
      "env W ''SFDX_AUTH_URL'' = None \<or> env W ''SFDX_AUTH_URL'' = Some []"
      "read_result W files ra = Inl e"
      "trace (snd out) = head @ [ReadFile ra (Inl e), ConsoleError e, denied]"
  | (OpenFail) ru u pre d e where "requestURL L req = Inr ru" "redirectURL L req = Inr u" "hostname u = hostname ru"
      "authorize W code = None" "fst out = None"
      "env W ''SFDX_AUTH_URL'' = Some d \<and> d \<noteq> [] \<and> pre = []
       \<or> (env W ''SFDX_AUTH_URL'' = None \<or> env W ''SFDX_AUTH_URL'' = Some [])
           \<and> read_result W files ra = Inr d \<and> pre = [ReadFile ra (Inr d)]"
      "open_fault W P ''w'' = Some e"
      "trace (snd out) = head @ pre @ [OpenFile P ''w'' (Some e), ConsoleError e, denied]"
  | (WriteFail) ru u pre d e where "requestURL L req = Inr ru" "redirectURL L req = Inr u" "hostname u = hostname ru"
      "authorize W code = None" "fst out = None"
      "env W ''SFDX_AUTH_URL'' = Some d \<and> d \<noteq> [] \<and> pre = []
       \<or> (env W ''SFDX_AUTH_URL'' = None \<or> env W ''SFDX_AUTH_URL'' = Some [])
           \<and> read_result W files ra = Inr d \<and> pre = [ReadFile ra (Inr d)]"
      "open_fault W P ''w'' = None" "write_fault W P d = Some e"
      "trace (snd out) =
         head @ pre @ [OpenFile P ''w'' None, WriteFile P d (Some e), ConsoleError e, denied]"
  | (StoreFail) ru u pre d e where "requestURL L req = Inr ru" "redirectURL L req = Inr u" "hostname u = hostname ru"
      "authorize W code = None" "fst out = None"
      "env W ''SFDX_AUTH_URL'' = Some d \<and> d \<noteq> [] \<and> pre = []
       \<or> (env W ''SFDX_AUTH_URL'' = None \<or> env W ''SFDX_AUTH_URL'' = Some [])
           \<and> read_result W files ra = Inr d \<and> pre = [ReadFile ra (Inr d)]"
      "open_fault W P ''w'' = None" "write_fault W P d = None"
      "exec W store_command (files(P \<mapsto> d)) = Inl e"
      "trace (snd out) =
         head @ pre @ [OpenFile P ''w'' None, WriteFile P d None, Exec store_command (Inl e),
                       ConsoleError e, denied]"
  | (OpenCmdFail) ru u pre d e outA where "requestURL L req = Inr ru" "redirectURL L req = Inr u" "hostname u = hostname ru"
      "authorize W code = None" "fst out = None"
      "env W ''SFDX_AUTH_URL'' = Some d \<and> d \<noteq> [] \<and> pre = []
       \<or> (env W ''SFDX_AUTH_URL'' = None \<or> env W ''SFDX_AUTH_URL'' = Some [])
           \<and> read_result W files ra = Inr d \<and> pre = [ReadFile ra (Inr d)]"
      "open_fault W P ''w'' = None" "write_fault W P d = None"
      "exec W store_command (files(P \<mapsto> d)) = Inr outA"
      "exec W open_command (files(P \<mapsto> d)) = Inl e"
      "trace (snd out) =
         head @ pre @ [OpenFile P ''w'' None, WriteFile P d None, Exec store_command (Inr outA),
                       Exec open_command (Inl e), ConsoleError e, denied]"
  | (OutputFail) ru u pre d e outA outB where "requestURL L req = Inr ru" "redirectURL L req = Inr u" "hostname u = hostname ru"
      "authorize W code = None" "fst out = None"
      "env W ''SFDX_AUTH_URL'' = Some d \<and> d \<noteq> [] \<and> pre = []
       \<or> (env W ''SFDX_AUTH_URL'' = None \<or> env W ''SFDX_AUTH_URL'' = Some [])
           \<and> read_result W files ra = Inr d \<and> pre = [ReadFile ra (Inr d)]"
      "open_fault W P ''w'' = None" "write_fault W P d = None"
      "exec W store_command (files(P \<mapsto> d)) = Inr outA"
      "exec W open_command (files(P \<mapsto> d)) = Inr outB"
      "location_of L outB = Inl e"
      "trace (snd out) =
         head @ pre @ [OpenFile P ''w'' None, WriteFile P d None, Exec store_command (Inr outA),
                       Exec open_command (Inr outB), ConsoleError e, denied]"
  | (Done) ru u pre d target outA outB where "requestURL L req = Inr ru" "redirectURL L req = Inr u" "hostname u = hostname ru"
      "authorize W code = None" "fst out = None"
      "env W ''SFDX_AUTH_URL'' = Some d \<and> d \<noteq> [] \<and> pre = []
       \<or> (env W ''SFDX_AUTH_URL'' = None \<or> env W ''SFDX_AUTH_URL'' = Some [])
           \<and> read_result W files ra = Inr d \<and> pre = [ReadFile ra (Inr d)]"
      "open_fault W P ''w'' = None" "write_fault W P d = None"
      "exec W store_command (files(P \<mapsto> d)) = Inr outA"
      "exec W open_command (files(P \<mapsto> d)) = Inr outB"
      "location_of L outB = Inr target"
      "trace (snd out) =
         head @ pre @ [OpenFile P ''w'' None, WriteFile P d None, Exec store_command (Inr outA),
                       Exec open_command (Inr outB), Respond (Redirect 302 target)]"
proof (cases "requestURL L req")
  case (Inl e)
  then show ?thesis
    using BadRequest [of e] by (simp add: out_def oauth2_callback_def start_def)
next
  case ru: (Inr ru)
  show ?thesis
  proof (cases "redirectURL L req")
    case (Inl e)
    then show ?thesis
      using BadState [of ru e] ru by (simp add: out_def oauth2_callback_def start_def)
  next
    case u: (Inr u)
    show ?thesis
    proof (cases "hostname u = hostname ru")
      case False
      show ?thesis
      proof (cases "forward_target req u")
        case (Inl e)
        with False show ?thesis
          using ForwardThrows [of ru u e] ru u
          by (simp add: out_def oauth2_callback_def start_def Let_def)
      next
        case (Inr t)
        with False show ?thesis
          using Forward [of ru u t] ru u
          by (simp add: out_def oauth2_callback_def start_def Let_def)
      qed
    next
      case same: True
      show ?thesis
      proof (cases "authorize W code")
        case (Some e)
        then show ?thesis
          using Refused [of ru u e] ru u same
          by (simp add: out_def oauth2_callback_def start_def Let_def code_def authorized_def
              handleError_def denied_def)
      next
        case ok: None
        define r1 where "r1 = \<lparr>trace = head, disk = files\<rparr>"
        have r1: "trace r1 = head" "disk r1 = files"
          by (simp_all add: r1_def)
        have out: "fst out = None" "snd out = catch_io (promise_chain L W) handleError r1"
          using ru u same ok
          by (simp_all add: out_def oauth2_callback_def start_def Let_def code_def authorized_def
              r1_def head_def emit_def)
        note local = ru u same ok out(1)
        show ?thesis
        proof (cases rule: promise_chain_cases [of W r1 L])
          case (ReadFail e)
          then show ?thesis
            using local r1 by (intro that(6) [where ru = ru and u = u and e = e]) (simp_all add: out(2) catch_io_trace ra_def denied_def)
        next
          case (OpenFail pre d e)
          then show ?thesis
            using local r1 by (intro that(7) [where ru = ru and u = u and pre = pre and d = d and e = e]) (simp_all add: out(2) catch_io_trace ra_def denied_def P_def)
        next
          case (WriteFail pre d e)
          then show ?thesis
            using local r1 by (intro that(8) [where ru = ru and u = u and pre = pre and d = d and e = e]) (simp_all add: out(2) catch_io_trace ra_def denied_def P_def)
        next
          case (StoreFail pre d e)
          then show ?thesis
            using local r1 by (intro that(9) [where ru = ru and u = u and pre = pre and d = d and e = e]) (simp_all add: out(2) catch_io_trace ra_def denied_def P_def)
        next
          case (OpenCmdFail pre d e o1)
          then show ?thesis
            using local r1 by (intro that(10) [where ru = ru and u = u and pre = pre and d = d and outA = o1 and e = e]) (simp_all add: out(2) catch_io_trace ra_def denied_def P_def)
        next
          case (OutputFail pre d e o1 o2)
          then show ?thesis
            using local r1 by (intro that(11) [where ru = ru and u = u and pre = pre and d = d and outA = o1 and outB = o2 and e = e]) (simp_all add: out(2) catch_io_trace ra_def denied_def P_def)
        next
          case (Done pre d tgt o1 o2)
          then show ?thesis
            using local r1 by (intro that(12) [where ru = ru and u = u and pre = pre and d = d and outA = o1 and outB = o2 and target = tgt]) (simp_all add: out(2) catch_io_trace ra_def denied_def P_def)
        qed
      qed
    qed
  qed
qed

lemma responses_append [simp]: "responses (xs @ ys) = responses xs @ responses ys"
  by (induction xs rule: responses.induct) simp_all

lemma commands_append [simp]: "commands (xs @ ys) = commands xs @ commands ys"
  by (induction xs rule: commands.induct) simp_all

lemma exchanges_append [simp]: "exchanges (xs @ ys) = exchanges xs @ exchanges ys"
  by (induction xs rule: exchanges.induct) simp_all

lemma reads_append [simp]: "reads (xs @ ys) = reads xs @ reads ys"
  by (induction xs rule: reads.induct) simp_all

lemma writes_append [simp]: "writes (xs @ ys) = writes xs @ writes ys"
  by (induction xs rule: writes.induct) simp_all

lemma store_command_neq_open_command: "store_command \<noteq> open_command"
  by (simp add: store_command_def open_command_def)

text \<open>What a run of the open command leads to: a 403, or a redirect to what was read.\<close>

lemma open_command_outcome:
  assumes "Exec open_command res \<in> set (trace (snd (oauth2_callback L W req (start files))))"
  shows "responses (trace (snd (oauth2_callback L W req (start files)))) =
           (case res of
              Inl e \<Rightarrow> [Send 403 ''Unexpected internal error'']
            | Inr out \<Rightarrow>
                (case location_of L out of
                   Inl e \<Rightarrow> [Send 403 ''Unexpected internal error'']
                 | Inr target \<Rightarrow> [Redirect 302 target]))"
  using assms store_command_neq_open_command
  by (cases rule: oauth2_callback_cases [of L req W files]) auto

text \<open>A state that JSON.parse rejects: its SyntaxError leaves the handler.\<close>

lemma malformed_state_throws:
  assumes "requestURL L req = Inr ru"
    and "toString (map_of (req_query req) ''state'') = Inr s"
    and "json_parse L s = Inl e"
  shows "fst (oauth2_callback L W req (start files)) = Some e
       \<and> trace (snd (oauth2_callback L W req (start files))) = [SetTimeout 600000]"
proof -
  from assms(2,3) have "redirectURL L req = Inl e"
    by (simp add: redirectURL_def)
  with assms(1) show ?thesis
    by (cases rule: oauth2_callback_cases [of L req W files]) auto
qed

text \<open>Output without a result gives no Location.\<close>

lemma output_without_result_unreadable:
  assumes "output_without_result L out"
  shows "isl (location_of L out)"
proof (cases "json_parse L out")
  case (Inl e)
  then show ?thesis
    by (simp add: location_of_def result_url_def)
next
  case (Inr j)
  with assms show ?thesis
    by (cases j)
       (auto simp: output_without_result_def location_of_def result_url_def
          split: option.splits)
qed

section \<open>The scenarios, evaluated\<close>

lemmas scenario_defs =
  node_def works_def store_fails_def store_garbage_def open_garbage_def no_url_def
  review_app_def review_files_def scenario_env_def known_urls_def known_json_def https_def
  mailto_def callback_request_def local_request_def forward_request_def sibling_request_def
  stateless_request_def empty_state_request_def hostless_request_def mailto_request_def
  repeated_code_request_def codeless_request_def bracket_code_request_def root_request_def state_here_def
  state_other_def state_oauth2_def state_mailto_def format_def href_def query_string_def
  query_pairs_def percent_def authorization_url_def oauth2_def

lemmas handler_defs =
  oauth2_callback_def requestURL_def redirectURL_def forward_target_def searchParams_append_def
  set_pathname_def authorized_def handleError_def catch_io_def promise_chain_def then_io_def
  sfdxAuthUrlFileData_def readFile_def read_result_def fsp_open_def writeFile_def exec_io_def
  redirect_to_org_def location_of_def result_url_def toString_def str_def start_def emit_def
  Let_def sfdxAuthUrlFilePath_def store_command_def open_command_def

lemma node_requestURL_local:
  "requestURL node local_request =
     Inr (https ''app.herokuapp.com'' ''/oauth2/callback''
            [(''code'', ''ABC''), (''state'', state_here)])"
  by (simp add: requestURL_def scenario_defs)

lemma node_redirectURL_local:
  "redirectURL node local_request = Inr (https ''app.herokuapp.com'' ''/'' [])"
  by (simp add: redirectURL_def toString_def scenario_defs)

lemma node_requestURL_forward:
  "requestURL node forward_request =
     Inr (https ''app.herokuapp.com'' ''/oauth2/callback''
            [(''code'', ''ABC''), (''state'', state_other)])"
  by (simp add: requestURL_def scenario_defs)

lemma node_redirectURL_forward:
  "redirectURL node forward_request = Inr (https ''other.herokuapp.com'' ''/'' [])"
  by (simp add: redirectURL_def toString_def scenario_defs)



lemma node_requestURL_empty_state:
  "requestURL node empty_state_request =
     Inr (https ''app.herokuapp.com'' ''/oauth2/callback'' [(''code'', ''ABC''), (''state'', ''{}'')])"
  by (simp add: requestURL_def scenario_defs)

lemma local_hostnames:
  "hostname (https ''app.herokuapp.com'' ''/'' [])
     = hostname (https ''app.herokuapp.com'' ''/oauth2/callback''
                   [(''code'', ''ABC''), (''state'', state_here)])"
  by (simp add: https_def)

lemma works_trace:
  \<open>trace (snd (oauth2_callback node works local_request (start Map.empty))) =
     [SetTimeout 600000, Authorize (Some (JString ''ABC'')) None,
      ConsoleLog [LogText ''sfdxAuthUrlFilePath=vendor/sfdx/open-app-sfdxurl''],
      ConsoleLog [LogText ''sfdxAuthUrlFileData=force://token@org.my.salesforce.com''],
      OpenFile ''vendor/sfdx/open-app-sfdxurl'' ''w'' None,
      WriteFile ''vendor/sfdx/open-app-sfdxurl'' ''force://token@org.my.salesforce.com'' None,
      Exec store_command (Inr ''{"status":0}''),
      Exec open_command (Inr ''{"result":{"url":"https://org.my.salesforce.com/secret"}}''),
      Respond (Redirect 302 ''https://org.my.salesforce.com/secret'')]\<close>
  by (simp add: handler_defs scenario_defs)

lemma store_fails_trace:
  "trace (snd (oauth2_callback node store_fails local_request (start Map.empty))) =
     [SetTimeout 600000, Authorize (Some (JString ''ABC'')) None,
      ConsoleLog [LogText ''sfdxAuthUrlFilePath=vendor/sfdx/open-app-sfdxurl''],
      ConsoleLog [LogText ''sfdxAuthUrlFileData=force://token@org.my.salesforce.com''],
      OpenFile ''vendor/sfdx/open-app-sfdxurl'' ''w'' None,
      WriteFile ''vendor/sfdx/open-app-sfdxurl'' ''force://token@org.my.salesforce.com'' None,
      Exec store_command (Inl (JsError ''Error'' ''Command failed'')),
      ConsoleError (JsError ''Error'' ''Command failed''),
      Respond (Send 403 ''Unexpected internal error'')]"
  by (simp add: handler_defs scenario_defs)

lemma store_garbage_trace:
  \<open>trace (snd (oauth2_callback node store_garbage local_request (start Map.empty))) =
     [SetTimeout 600000, Authorize (Some (JString ''ABC'')) None,
      ConsoleLog [LogText ''sfdxAuthUrlFilePath=vendor/sfdx/open-app-sfdxurl''],
      ConsoleLog [LogText ''sfdxAuthUrlFileData=force://token@org.my.salesforce.com''],
      OpenFile ''vendor/sfdx/open-app-sfdxurl'' ''w'' None,
      WriteFile ''vendor/sfdx/open-app-sfdxurl'' ''force://token@org.my.salesforce.com'' None,
      Exec store_command (Inr ''oops''),
      Exec open_command (Inr ''{"result":{"url":"https://org.my.salesforce.com/secret"}}''),
      Respond (Redirect 302 ''https://org.my.salesforce.com/secret'')]\<close>
  by (simp add: handler_defs scenario_defs)

lemma open_garbage_trace:
  \<open>trace (snd (oauth2_callback node open_garbage local_request (start Map.empty))) =
     [SetTimeout 600000, Authorize (Some (JString ''ABC'')) None,
      ConsoleLog [LogText ''sfdxAuthUrlFilePath=vendor/sfdx/open-app-sfdxurl''],
      ConsoleLog [LogText ''sfdxAuthUrlFileData=force://token@org.my.salesforce.com''],
      OpenFile ''vendor/sfdx/open-app-sfdxurl'' ''w'' None,
      WriteFile ''vendor/sfdx/open-app-sfdxurl'' ''force://token@org.my.salesforce.com'' None,
      Exec store_command (Inr ''{"status":0}''),
      Exec open_command (Inr ''oops''),
      ConsoleError (JsError ''SyntaxError'' ''Unexpected token in JSON''),
      Respond (Send 403 ''Unexpected internal error'')]\<close>
  by (simp add: handler_defs scenario_defs)

section \<open>Routing\<close>




text \<open>
  Claim C2 as stated fails, on three forwarded requests. A state that names
  \<^verbatim>\<open>mailto:a@b.c\<close>: the path of such a URL is opaque, the assignment to \<^verbatim>\<open>pathname\<close>
  does nothing, and the redirect goes to the \<^verbatim>\<open>mailto:\<close> URL itself. The parameter
  \<^verbatim>\<open>code\<close> given twice: its two values are sent on as the one value \<^verbatim>\<open>ABC,XYZ\<close>. No
  \<^verbatim>\<open>code\<close> at all: the text \<^verbatim>\<open>undefined\<close> is sent on as the code.
\<close>

theorem forward_keeps_mailto_and_joins_codes:
  \<open>redirectURL node mailto_request = Inr (mailto ''a@b.c'')
   \<and> responses (trace (snd (oauth2_callback node works mailto_request (start Map.empty))))
       = [Redirect 302 ''mailto:a@b.c?state=%7B%22redirectURL%22%3A%22mailto%3Aa%40b.c%22%7D&code=ABC'']
   \<and> map_of (req_query repeated_code_request) ''code''
       = Some (JArray [JString ''ABC'', JString ''XYZ''])
   \<and> responses (trace (snd (oauth2_callback node works repeated_code_request (start Map.empty))))
       = [Redirect 302 ''https://other.herokuapp.com/oauth2/callback?state=%7B%22redirectURL%22%3A%22https%3A%2F%2Fother.herokuapp.com%22%7D&code=ABC%2CXYZ'']
   \<and> map_of (req_query codeless_request) ''code'' = None
   \<and> responses (trace (snd (oauth2_callback node works codeless_request (start Map.empty))))
       = [Redirect 302 ''https://other.herokuapp.com/oauth2/callback?state=%7B%22redirectURL%22%3A%22https%3A%2F%2Fother.herokuapp.com%22%7D&code=undefined'']\<close>
  by (simp add: handler_defs scenario_defs)

text \<open>
  Claim C2, amended. When a valid callback request is forwarded, the path of its
  redirect URL is not opaque, and its \<^verbatim>\<open>state\<close> and \<^verbatim>\<open>code\<close> are each given once, as
  a string, the one response is a redirect to the redirect URL with the path
  \<^verbatim>\<open>/oauth2/callback\<close> and with the request's own \<^verbatim>\<open>state\<close> and \<^verbatim>\<open>code\<close> values,
  unchanged, appended to its query parameters; every other component of the redirect
  URL is kept.
\<close>

theorem forward_carries_state_and_code:
  assumes "url_parse L (url_format L (req_protocol req) (req_hostname req) (req_path req)
                          (req_query req)) = Inr ru"
    and "redirectURL L req = Inr u"
    and "hostname u \<noteq> hostname ru"
    and "\<not> opaque_path u"
    and "map_of (req_query req) ''state'' = Some (JString s)"
    and "map_of (req_query req) ''code'' = Some (JString c)"
  shows "responses (trace (snd (oauth2_callback L W req (start files)))) =
           [Redirect 302
              (url_href L (u\<lparr>pathname := ''/oauth2/callback'',
                              searchParams := searchParams u @ [(''state'', s), (''code'', c)]\<rparr>))]"
proof -
  from assms(1) have "requestURL L req = Inr ru"
    by (simp add: requestURL_def)
  with assms(2-6) show ?thesis
    by (cases rule: oauth2_callback_cases [of L req W files])
       (auto simp: forward_target_def searchParams_append_def set_pathname_def toString_def)
qed

theorem forward_carries_state_and_code_witness:
  \<open>hostname (https ''other.herokuapp.com'' ''/'' []) \<noteq> ''app.herokuapp.com''
   \<and> \<not> opaque_path (https ''other.herokuapp.com'' ''/'' [])
   \<and> map_of (req_query forward_request) ''state''
       = Some (JString ''{"redirectURL":"https://other.herokuapp.com"}'')
   \<and> map_of (req_query forward_request) ''code'' = Some (JString ''ABC'')
   \<and> responses (trace (snd (oauth2_callback node works forward_request (start Map.empty))))
     = [Redirect 302 ''https://other.herokuapp.com/oauth2/callback?state=%7B%22redirectURL%22%3A%22https%3A%2F%2Fother.herokuapp.com%22%7D&code=ABC'']\<close>
proof -
  have h: "hostname (https ''other.herokuapp.com'' ''/'' [])
             \<noteq> hostname (https ''app.herokuapp.com'' ''/oauth2/callback''
                            [(''code'', ''ABC''), (''state'', state_other)])"
    and o: "\<not> opaque_path (https ''other.herokuapp.com'' ''/'' [])"
    by (simp_all add: https_def)
  have s: "map_of (req_query forward_request) ''state'' = Some (JString state_other)"
    and c: "map_of (req_query forward_request) ''code'' = Some (JString ''ABC'')"
    by (simp_all add: forward_request_def callback_request_def)
  show ?thesis
    using forward_carries_state_and_code
      [OF node_requestURL_forward [unfolded requestURL_def] node_redirectURL_forward h o s c,
        of works Map.empty] s c
    by (simp add: https_def node_def href_def query_string_def percent_def state_other_def)
qed

section \<open>Failures\<close>

text \<open>
  Claim C3 as stated fails, with the failures of a command line the specification
  lists: the store command exits with status 0 and prints \<^verbatim>\<open>oops\<close>, which is no JSON.
  The handler never reads the store command's output: it goes on to the open command
  and redirects to the org.
\<close>

theorem garbage_store_output_redirects:
  "list_ex (cli_failure_of_spec node)
     (trace (snd (oauth2_callback node store_garbage local_request (start Map.empty))))
   \<and> responses (trace (snd (oauth2_callback node store_garbage local_request (start Map.empty))))
       = [Redirect 302 ''https://org.my.salesforce.com/secret'']"
  by (simp add: store_garbage_trace)
     (simp add: store_command_def open_command_def sfdxAuthUrlFilePath_def node_def known_json_def
        state_here_def state_other_def state_oauth2_def state_mailto_def)

text \<open>
  Claim C3, amended. If any call of a run failed (the provider refused the code,
  reading, opening or writing a file failed, or a command line was rejected), or if
  what the open command printed is malformed JSON or JSON without a \<^verbatim>\<open>result\<close>, the
  handler returns without throwing and sends exactly one response, status 403 with the
  body \<^verbatim>\<open>Unexpected internal error\<close>: the same text whatever the error was. What the
  store command printed plays no role.
\<close>

theorem failure_answers_403_once:
  assumes "list_ex (\<lambda>ev. failed ev \<or> unreadable_output L ev)
             (trace (snd (oauth2_callback L W req (start files))))"
  shows "fst (oauth2_callback L W req (start files)) = None \<and>
         responses (trace (snd (oauth2_callback L W req (start files))))
           = [Send 403 ''Unexpected internal error'']"
proof -
  have unreadable: "\<not> output_without_result L out" if "location_of L out = Inr target"
    for out target
    using that output_without_result_unreadable [of L out] by auto
  from assms store_command_neq_open_command show ?thesis
    by (cases rule: oauth2_callback_cases [of L req W files]) (auto simp: unreadable)
qed

theorem failure_answers_403_once_witness:
  "list_ex failed (trace (snd (oauth2_callback node store_fails local_request (start Map.empty))))
   \<and> responses (trace (snd (oauth2_callback node store_fails local_request (start Map.empty))))
       = [Send 403 ''Unexpected internal error'']
   \<and> list_ex (unreadable_output node)
       (trace (snd (oauth2_callback node open_garbage local_request (start Map.empty))))
   \<and> responses (trace (snd (oauth2_callback node open_garbage local_request (start Map.empty))))
       = [Send 403 ''Unexpected internal error'']"
proof -
  have a: "list_ex failed
             (trace (snd (oauth2_callback node store_fails local_request (start Map.empty))))"
    by (simp add: store_fails_trace)
  have b: "list_ex (unreadable_output node)
             (trace (snd (oauth2_callback node open_garbage local_request (start Map.empty))))"
    by (simp add: open_garbage_trace)
       (simp add: output_without_result_def node_def known_json_def state_here_def
          state_other_def state_oauth2_def state_mailto_def)
  from a have a': "list_ex (\<lambda>ev. failed ev \<or> unreadable_output node ev)
             (trace (snd (oauth2_callback node store_fails local_request (start Map.empty))))"
    by (auto simp: list_ex_iff)
  from b have b': "list_ex (\<lambda>ev. failed ev \<or> unreadable_output node ev)
             (trace (snd (oauth2_callback node open_garbage local_request (start Map.empty))))"
    by (auto simp: list_ex_iff)
  show ?thesis
    using a b failure_answers_403_once [OF a'] failure_answers_403_once [OF b'] by simp
qed

section \<open>The credential\<close>

text \<open>
  Claim C4. In a local completion (the provider accepted the code), when the
  environment's \<^verbatim>\<open>SFDX_AUTH_URL\<close> is present and not empty no file is read, and what
  is written to the credential file is that string. When it is absent or empty, the one
  file read is \<^verbatim>\<open>vendor/sfdx/ra-\<close> followed by the app's name, and what is written is
  that file's content.
\<close>

theorem environment_credential_preferred:
  assumes "requestURL L req = Inr ru" and "redirectURL L req = Inr u"
    and "hostname u = hostname ru"
    and "authorize W (map_of (req_query req) ''code'') = None"
  shows "if env W ''SFDX_AUTH_URL'' = None \<or> env W ''SFDX_AUTH_URL'' = Some []
         then reads (trace (snd (oauth2_callback L W req (start files))))
                = [''vendor/sfdx/ra-'' @ str (env W ''HEROKU_APP_NAME'')]
            \<and> writes (trace (snd (oauth2_callback L W req (start files))))
                = (case read_result W files (''vendor/sfdx/ra-'' @ str (env W ''HEROKU_APP_NAME'')) of
                     Inl e \<Rightarrow> []
                   | Inr d \<Rightarrow> if open_fault W sfdxAuthUrlFilePath ''w'' = None
                              then [(sfdxAuthUrlFilePath, d)] else [])
         else reads (trace (snd (oauth2_callback L W req (start files)))) = []
            \<and> writes (trace (snd (oauth2_callback L W req (start files))))
                = (if open_fault W sfdxAuthUrlFilePath ''w'' = None
                   then [(sfdxAuthUrlFilePath, str (env W ''SFDX_AUTH_URL''))] else [])"
  using assms
  by (cases rule: oauth2_callback_cases [of L req W files])
     (auto simp: str_def)

theorem environment_credential_preferred_witness:
  "env works ''SFDX_AUTH_URL'' = Some ''force://token@org.my.salesforce.com''
   \<and> review_files ''vendor/sfdx/ra-app'' = Some ''force://review@scratch.my.salesforce.com''
   \<and> reads (trace (snd (oauth2_callback node works local_request (start review_files)))) = []
   \<and> writes (trace (snd (oauth2_callback node works local_request (start review_files))))
       = [(''vendor/sfdx/open-app-sfdxurl'', ''force://token@org.my.salesforce.com'')]
   \<and> env review_app ''SFDX_AUTH_URL'' = None
   \<and> reads (trace (snd (oauth2_callback node review_app local_request (start review_files))))
       = [''vendor/sfdx/ra-app'']
   \<and> writes (trace (snd (oauth2_callback node review_app local_request (start review_files))))
       = [(''vendor/sfdx/open-app-sfdxurl'', ''force://review@scratch.my.salesforce.com'')]"
proof -
  have a: "authorize works (map_of (req_query local_request) ''code'') = None"
    and b: "authorize review_app (map_of (req_query local_request) ''code'') = None"
    by (simp_all add: works_def review_app_def local_request_def callback_request_def)
  show ?thesis
    using environment_credential_preferred
        [OF node_requestURL_local node_redirectURL_local local_hostnames a, of review_files]
      environment_credential_preferred
        [OF node_requestURL_local node_redirectURL_local local_hostnames b, of review_files]
    by (simp add: works_def review_app_def scenario_env_def review_files_def read_result_def
        str_def sfdxAuthUrlFilePath_def)
qed

section \<open>Malformed state\<close>

text \<open>
  Claim C5, at a request without a \<^verbatim>\<open>state\<close> parameter. JSON.parse is given
  \<^verbatim>\<open>undefined\<close> and throws a SyntaxError, which leaves the handler: nothing but the
  timeout was set, \<^verbatim>\<open>handleError\<close> is not called and the handler sends no response.
  (\<open>malformed_state_throws\<close> above is the same for any state JSON.parse rejects.)
\<close>

theorem missing_state_throws:
  "map_of (req_query stateless_request) ''state'' = None
   \<and> fst (oauth2_callback node works stateless_request (start Map.empty))
     = Some (JsError ''SyntaxError'' ''Unexpected token in JSON'')
   \<and> trace (snd (oauth2_callback node works stateless_request (start Map.empty)))
     = [SetTimeout 600000]"
  by (simp add: handler_defs scenario_defs)

section \<open>The output of the open command\<close>

text \<open>
  Claim C6, at a run where the open command exits with status 0 and prints
  \<^verbatim>\<open>{"result":{}}\<close>. Reading \<^verbatim>\<open>url\<close> gives \<^verbatim>\<open>undefined\<close> and throws nothing, so
  the handler redirects to the text \<^verbatim>\<open>undefined\<close> and sends no 403.
  (\<open>open_command_outcome\<close> above gives the response for every output: a rejected
  command, malformed JSON and a value without \<^verbatim>\<open>result\<close> do end in the 403.)
\<close>

theorem result_without_url_redirects:
  \<open>commands (trace (snd (oauth2_callback node no_url local_request (start Map.empty))))
     = [store_command, open_command]
   \<and> exec no_url open_command [sfdxAuthUrlFilePath \<mapsto> ''force://token@org.my.salesforce.com'']
     = Inr ''{"result":{}}''
   \<and> result_url node ''{"result":{}}'' = Inr None
   \<and> responses (trace (snd (oauth2_callback node no_url local_request (start Map.empty))))
     = [Redirect 302 ''undefined'']\<close>
  by (simp add: handler_defs scenario_defs)

section \<open>The write before the store command\<close>

text \<open>
  Claim C7 as stated fails: the handler opens the file, writes it and runs the store
  command; it never asks for a flush to storage. In the run where everything works the
  store command runs on a file that was written and not flushed.
\<close>

theorem store_runs_unflushed:
  "\<not> flushed_before_store False
       (trace (snd (oauth2_callback node works local_request (start Map.empty))))"
  by (simp add: works_trace)

text \<open>
  Claim C7, amended. Whenever the store command runs, the two calls just before it are
  the opening of the credential file for writing, which succeeded, and the write of the
  resolved credential string to it, which was reported complete. Nothing was executed
  or written before, and no flush to storage is asked for anywhere in the run.
\<close>

theorem store_runs_after_write:
  assumes "Exec store_command res \<in> set (trace (snd (oauth2_callback L W req (start files))))"
  shows "(\<exists>before d after.
            trace (snd (oauth2_callback L W req (start files))) =
              before @ [OpenFile sfdxAuthUrlFilePath ''w'' None,
                        WriteFile sfdxAuthUrlFilePath d None,
                        Exec store_command res] @ after
            \<and> commands before = [] \<and> writes before = []
            \<and> (if env W ''SFDX_AUTH_URL'' = None \<or> env W ''SFDX_AUTH_URL'' = Some []
               then read_result W files (''vendor/sfdx/ra-'' @ str (env W ''HEROKU_APP_NAME'')) = Inr d
               else env W ''SFDX_AUTH_URL'' = Some d))
         \<and> (\<forall>path. SyncFile path \<notin> set (trace (snd (oauth2_callback L W req (start files)))))"
proof -
  let ?head = "[SetTimeout 600000, Authorize (map_of (req_query req) ''code'') None,
                ConsoleLog [LogText (''sfdxAuthUrlFilePath='' @ sfdxAuthUrlFilePath)],
                ConsoleLog [LogText (''sfdxAuthUrlFileData='' @ str (env W ''SFDX_AUTH_URL''))]]"
  note neq = store_command_neq_open_command
  show ?thesis
  proof (cases rule: oauth2_callback_cases [of L req W files])
    case (StoreFail ru u pre d e)
    with assms have "res = Inl e" by auto
    with StoreFail show ?thesis
      by (intro conjI exI [where x = "?head @ pre"] exI [where x = d]
          exI [where x = "[ConsoleError e, Respond (Send 403 ''Unexpected internal error'')]"])
         auto
  next
    case (OpenCmdFail ru u pre d e outA)
    with assms neq have "res = Inr outA" by auto
    with OpenCmdFail show ?thesis
      by (intro conjI exI [where x = "?head @ pre"] exI [where x = d]
          exI [where x = "[Exec open_command (Inl e), ConsoleError e,
                           Respond (Send 403 ''Unexpected internal error'')]"])
         auto
  next
    case (OutputFail ru u pre d e outA outB)
    with assms neq have "res = Inr outA" by auto
    with OutputFail show ?thesis
      by (intro conjI exI [where x = "?head @ pre"] exI [where x = d]
          exI [where x = "[Exec open_command (Inr outB), ConsoleError e,
                           Respond (Send 403 ''Unexpected internal error'')]"])
         auto
  next
    case (Done ru u pre d target outA outB)
    with assms neq have "res = Inr outA" by auto
    with Done show ?thesis
      by (intro conjI exI [where x = "?head @ pre"] exI [where x = d]
          exI [where x = "[Exec open_command (Inr outB), Respond (Redirect 302 target)]"])
         auto
  qed (use assms in auto)
qed

theorem store_runs_after_write_witness:
  \<open>Exec store_command (Inr ''{"status":0}'')
     \<in> set (trace (snd (oauth2_callback node works local_request (start Map.empty))))
   \<and> (\<exists>before after.
         trace (snd (oauth2_callback node works local_request (start Map.empty))) =
           before @ [OpenFile sfdxAuthUrlFilePath ''w'' None,
                     WriteFile sfdxAuthUrlFilePath ''force://token@org.my.salesforce.com'' None,
                     Exec store_command (Inr ''{"status":0}'')] @ after
         \<and> commands before = [] \<and> writes before = [])\<close>
proof -
  have h: \<open>Exec store_command (Inr ''{"status":0}'')
             \<in> set (trace (snd (oauth2_callback node works local_request (start Map.empty))))\<close>
    by (simp add: works_trace)
  have e: "env works ''SFDX_AUTH_URL'' = Some ''force://token@org.my.salesforce.com''"
    by (simp add: works_def scenario_env_def)
  from store_runs_after_write [OF h] obtain before d after where
    t: \<open>trace (snd (oauth2_callback node works local_request (start Map.empty))) =
          before @ [OpenFile sfdxAuthUrlFilePath ''w'' None,
                    WriteFile sfdxAuthUrlFilePath d None,
                    Exec store_command (Inr ''{"status":0}'')] @ after\<close>
    and b: "commands before = []" "writes before = []"
    and d: "if env works ''SFDX_AUTH_URL'' = None \<or> env works ''SFDX_AUTH_URL'' = Some []
            then read_result works Map.empty (''vendor/sfdx/ra-'' @ str (env works ''HEROKU_APP_NAME'')) = Inr d
            else env works ''SFDX_AUTH_URL'' = Some d"
    by blast
  from d e have "d = ''force://token@org.my.salesforce.com''"
    by simp
  with t b h show ?thesis
    by blast
qed

section \<open>The home page\<close>

text \<open>
  Claim C8. Let the instance's app name be \<open>name\<close>, and let the provider's authorization
  URL be a URL. Then every request for \<^verbatim>\<open>/\<close> is answered, without throwing, by one
  response: a 302 redirect to the authorization URL with one more query parameter,
  \<^verbatim>\<open>state\<close>, whose value is the JSON text of the object with the single member
  \<^verbatim>\<open>redirectURL\<close>, the instance's origin \<^verbatim>\<open>https://name.herokuapp.com\<close>. The request
  plays no role.
\<close>

theorem root_redirects_with_state:
  assumes "url_parse L (getAuthorizationUrl L (oauth2 (env W)) [(''scope'', ''id'')]) = Inr authURL"
    and "env W ''HEROKU_APP_NAME'' = Some name"
  shows "fst (get_root L W req (start files)) = None \<and>
         responses (trace (snd (get_root L W req (start files)))) =
           [Redirect 302
              (url_href L
                 (authURL\<lparr>searchParams := searchParams authURL @
                    [(''state'',
                      json_stringify L
                        (JObject [(''redirectURL'',
                                   JString (''https://'' @ name @ ''.herokuapp.com''))]))]\<rparr>))]"
  using assms
  by (simp add: get_root_def Let_def searchParams_append_def redirectURL_of_instance_def start_def
      str_def)

theorem root_redirects_with_state_witness:
  \<open>env works ''HEROKU_APP_NAME'' = Some ''app''
   \<and> json_stringify node (JObject [(''redirectURL'', JString ''https://app.herokuapp.com'')])
       = ''{"redirectURL":"https://app.herokuapp.com"}''
   \<and> responses (trace (snd (get_root node works root_request (start Map.empty))))
       = [Redirect 302 ''https://login.salesforce.com/services/oauth2/authorize?response_type=code&client_id=client&redirect_uri=https%3A%2F%2Fapp.herokuapp.com%2Foauth2%2Fcallback&scope=id&state=%7B%22redirectURL%22%3A%22https%3A%2F%2Fapp.herokuapp.com%22%7D'']\<close>
proof -
  have h: "url_parse node (getAuthorizationUrl node (oauth2 (env works)) [(''scope'', ''id'')])
             = Inr (https ''login.salesforce.com'' ''/services/oauth2/authorize''
                      [(''response_type'', ''code''), (''client_id'', ''client''),
                       (''redirect_uri'', ''https://app.herokuapp.com/oauth2/callback''),
                       (''scope'', ''id'')])"
    by (simp add: scenario_defs)
  have n: "env works ''HEROKU_APP_NAME'' = Some ''app''"
    by (simp add: works_def scenario_env_def)
  show ?thesis
    using root_redirects_with_state [OF h n, of root_request Map.empty] n
    by (simp add: node_def https_def href_def query_string_def percent_def)
qed

section \<open>A state without a usable redirect URL\<close>

text \<open>
  Claim C9. Let \<^verbatim>\<open>new URL(undefined)\<close> throw, as the library's does. When the state
  parses as JSON and its \<^verbatim>\<open>redirectURL\<close> is absent or is rejected by \<^verbatim>\<open>new URL\<close>,
  the handler throws synchronously: nothing but the timeout was set, so no exchange was
  started, no response was sent and \<^verbatim>\<open>handleError\<close> was not reached.
\<close>

theorem unusable_redirectURL_throws:
  assumes "requestURL L req = Inr ru"
    and "toString (map_of (req_query req) ''state'') = Inr s"
    and "json_parse L s = Inr state"
    and "redirectURL_unusable L state"
    and "isl (url_parse L ''undefined'')"
  shows "\<exists>e. fst (oauth2_callback L W req (start files)) = Some e
            \<and> trace (snd (oauth2_callback L W req (start files))) = [SetTimeout 600000]"
proof -
  from assms(2-5) have "isl (redirectURL L req)"
    by (auto simp: redirectURL_def redirectURL_unusable_def toString_def
        split: sum.splits option.splits)
  then obtain e where "redirectURL L req = Inl e"
    by (cases "redirectURL L req") auto
  with assms(1) show ?thesis
    by (cases rule: oauth2_callback_cases [of L req W files]) auto
qed

theorem unusable_redirectURL_throws_witness:
  "toString (map_of (req_query empty_state_request) ''state'') = Inr ''{}''
   \<and> json_parse node ''{}'' = Inr (JObject [])
   \<and> get_prop (Some (JObject [])) ''redirectURL'' = Inr None
   \<and> fst (oauth2_callback node works empty_state_request (start Map.empty))
       = Some (JsError ''TypeError'' ''Invalid URL'')
   \<and> trace (snd (oauth2_callback node works empty_state_request (start Map.empty)))
       = [SetTimeout 600000]"
proof -
  have t: "toString (map_of (req_query empty_state_request) ''state'') = Inr ''{}''"
    by (simp add: toString_def scenario_defs)
  have j: "json_parse node ''{}'' = Inr (JObject [])"
    by (simp add: scenario_defs)
  have u: "redirectURL_unusable node (JObject [])"
    by (simp add: redirectURL_unusable_def)
  have n: "isl (url_parse node ''undefined'')"
    by (simp add: scenario_defs)
  have r: "redirectURL node empty_state_request = Inl (JsError ''TypeError'' ''Invalid URL'')"
    by (simp add: redirectURL_def toString_def scenario_defs)
  obtain e where e: "fst (oauth2_callback node works empty_state_request (start Map.empty)) = Some e"
    "trace (snd (oauth2_callback node works empty_state_request (start Map.empty)))
       = [SetTimeout 600000]"
    using unusable_redirectURL_throws [OF node_requestURL_empty_state t j u n, of works Map.empty]
    by blast
  have "fst (oauth2_callback node works empty_state_request (start Map.empty))
          = Some (JsError ''TypeError'' ''Invalid URL'')"
    using node_requestURL_empty_state r by (simp add: oauth2_callback_def Let_def)
  with e t j show ?thesis by simp
qed

section \<open>The command lines\<close>

text \<open>
  Claim C10. The command lines a callback request executes are none, the store
  command, or the store command and then the open command: two texts that no library,
  world, request or file has a part in. So the command lines of any two requests agree
  as far as both run.
\<close>

theorem commands_are_fixed:
  \<open>commands (trace (snd (oauth2_callback L W req (start files))))
     \<in> {[], [store_command], [store_command, open_command]}
   \<and> take (length (commands (trace (snd (oauth2_callback L' W' req' (start files'))))))
        (commands (trace (snd (oauth2_callback L W req (start files)))))
     = take (length (commands (trace (snd (oauth2_callback L W req (start files))))))
        (commands (trace (snd (oauth2_callback L' W' req' (start files')))))
   \<and> store_command = ''sfdx force:auth:sfdxurl:store --setalias sfdxorg --sfdxurlfile "vendor/sfdx/open-app-sfdxurl" --noprompt --json''
   \<and> open_command = ''sfdx force:org:open --targetusername sfdxorg --urlonly --json''\<close>
proof -
  have one: "commands (trace (snd (oauth2_callback L W req (start files))))
               \<in> {[], [store_command], [store_command, open_command]}" for L W req files
    by (rule oauth2_callback_cases [of L req W files]) auto
  from one [of L W req files] one [of L' W' req' files'] show ?thesis
    by (auto simp: store_command_def open_command_def sfdxAuthUrlFilePath_def)
qed

theorem commands_are_fixed_witness:
  "commands (trace (snd (oauth2_callback node works local_request (start Map.empty))))
     = [store_command, open_command]
   \<and> commands (trace (snd (oauth2_callback node store_fails local_request (start Map.empty))))
     = [store_command]"
proof -
  have "length (commands (trace (snd (oauth2_callback node works local_request (start Map.empty)))))
          = 2"
    and "length (commands (trace (snd (oauth2_callback node store_fails local_request (start Map.empty)))))
          = 1"
    by (simp_all add: works_trace store_fails_trace)
  then show ?thesis
    using commands_are_fixed [of node works local_request Map.empty node works local_request Map.empty]
      commands_are_fixed [of node store_fails local_request Map.empty node works local_request Map.empty]
    by auto
qed

end
